theory Spec2Isabelle
  imports Main "HOL-Library.AList"
begin

section \<open>JavaScript values, errors and log lines\<close>

text \<open>
  The connector of \<^verbatim>\<open>SalesforceCliConnector.js\<close> handles the values that
  \<^verbatim>\<open>JSON.parse\<close> produces, plus \<^verbatim>\<open>undefined\<close>, which the helpers return and
  which a caller may pass. Numbers are restricted to integers (the status code of the
  tool's response is one); an object is the list of its own properties in order.
\<close>

datatype jsval =
    JUndefined
  | JNull
  | JBool bool
  | JNum int
  | JStr string
  | JArr "jsval list"
  | JObj "(string \<times> jsval) list"

text \<open>An \<^verbatim>\<open>Error\<close> object of the runtime: its message and its stack trace.\<close>

datatype js_error = JsError (err_message: string) (err_stack: string)

definition TypeError :: "string \<Rightarrow> js_error" where
  "TypeError msg = JsError msg (''TypeError: '' @ msg)"

text \<open>
  Reading a property \<^verbatim>\<open>v.k\<close>: a \<^verbatim>\<open>TypeError\<close> on \<^verbatim>\<open>null\<close> and \<^verbatim>\<open>undefined\<close>,
  the own property of an object, and \<^verbatim>\<open>undefined\<close> where there is none (the names read
  by the connector are no properties of a number, a string, a boolean or an array).
\<close>

fun get_prop :: "jsval \<Rightarrow> string \<Rightarrow> js_error + jsval" where
  "get_prop JUndefined k =
     Inl (TypeError (''Cannot read properties of undefined (reading '' @ [CHR 0x27] @ k
                       @ [CHR 0x27] @ '')''))"
| "get_prop JNull k =
     Inl (TypeError (''Cannot read properties of null (reading '' @ [CHR 0x27] @ k
                       @ [CHR 0x27] @ '')''))"
| "get_prop (JObj kvs) k = Inr (case map_of kvs k of None \<Rightarrow> JUndefined | Some v \<Rightarrow> v)"
| "get_prop v k = Inr JUndefined"

text \<open>A line handed to the \<^verbatim>\<open>pino\<close> logger: the level, the format and its arguments.\<close>

datatype log_entry =
    LogError string "jsval list"
  | LogInfo string "jsval list"

definition ERROR_LEVEL_NONE :: int where
  "ERROR_LEVEL_NONE = - 1"

definition ERROR_LEVEL_BASIC :: int where
  "ERROR_LEVEL_BASIC = 0"

definition ERROR_LEVEL_DETAIL :: int where
  "ERROR_LEVEL_DETAIL = 1"

section \<open>The class DeveloperError\<close>

text \<open>
  The constructor stores whatever it is given, so the three fields are values: the
  connector passes strings, and the \<^verbatim>\<open>message\<close> and \<^verbatim>\<open>stack\<close> properties of the
  tool's response as they are.
\<close>

record DeveloperError =
  message :: jsval
  detailMessage :: jsval
  stack :: jsval

text \<open>
  What a \<^verbatim>\<open>catch\<close> clause of the connector can receive: an instance of
  \<^verbatim>\<open>DeveloperError\<close>, or an \<^verbatim>\<open>Error\<close> of the runtime.
\<close>

datatype thrown =
    IsDeveloperError DeveloperError
  | IsError js_error

text \<open>\<^verbatim>\<open>static importError(err)\<close>: the test is \<^verbatim>\<open>err instanceof DeveloperError\<close>.\<close>

fun importError :: "thrown \<Rightarrow> DeveloperError" where
  "importError (IsDeveloperError err) = err"
| "importError (IsError err) =
     \<lparr>message = JStr (err_message err),
      detailMessage = JStr ''unhandled exception'',
      stack = JStr (err_stack err)\<rparr>"

text \<open>\<^verbatim>\<open>log(traceLevel)\<close>: the lines it hands to the logger.\<close>

definition log :: "DeveloperError \<Rightarrow> int \<Rightarrow> log_entry list" where
  "log this traceLevel =
     (if traceLevel > ERROR_LEVEL_NONE then
        (if traceLevel = ERROR_LEVEL_BASIC then
           [LogError ''Error occurred:%s'' [message this]]
         else if traceLevel > ERROR_LEVEL_BASIC then
           [LogError (''Error occurred:%s '' @ [CHR 0x0A] @ '' %s '' @ [CHR 0x0A] @ '' %o'')
              [message this, detailMessage this, stack this]]
         else [])
      else [])"

section \<open>Promises and the child process\<close>

text \<open>
  A promise as its caller sees it: resolved with a value, rejected with what was thrown,
  or never settled.
\<close>

datatype 'a promise =
    Resolved 'a
  | Rejected thrown
  | Pending

text \<open>
  The events the spawned process delivers, in the order of their delivery. The connector
  listens to data on both output streams, to \<^verbatim>\<open>close\<close> on the standard output (its
  listener names its argument \<^verbatim>\<open>code\<close>) and to \<^verbatim>\<open>error\<close> on the process; nothing
  listens to \<^verbatim>\<open>exit\<close>.
\<close>

datatype proc_event =
    StdoutData string
  | StderrData string
  | ProcessError js_error
  | StdoutClose int
  | ProcessExit int

text \<open>\<^verbatim>\<open>alias || 'default'\<close>; \<open>None\<close> is an argument left out (\<^verbatim>\<open>undefined\<close>).\<close>

definition alias_or_default :: "string option \<Rightarrow> string" where
  "alias_or_default alias =
     (case alias of None \<Rightarrow> ''default'' | Some a \<Rightarrow> if a = [] then ''default'' else a)"

text \<open>
  The listeners of \<^verbatim>\<open>getOrgDetail\<close>, run over the events: \<open>results\<close> and
  \<open>streamError\<close> are the two variables they share. The promise settles at the first
  \<^verbatim>\<open>close\<close> of the standard output; without one it stays pending.
\<close>

fun listeners :: "string option \<Rightarrow> string \<Rightarrow> js_error option \<Rightarrow> proc_event list \<Rightarrow> string promise" where
  "listeners alias results streamError [] = Pending"
| "listeners alias results streamError (StdoutClose code # evs) =
     (case streamError of
        Some err \<Rightarrow>
          Rejected (IsDeveloperError
            \<lparr>message = JStr (''Error occurred while asking the salesforce cli for alias:''
                 @ alias_or_default alias @ '', is the salesforce cli installed?''),
             detailMessage = JStr (err_message err),
             stack = JStr (err_stack err)\<rparr>)
      | None \<Rightarrow> Resolved results)"
| "listeners alias results streamError (StdoutData d # evs) =
     listeners alias (results @ d) streamError evs"
| "listeners alias results streamError (StderrData d # evs) =
     listeners alias (results @ d) streamError evs"
| "listeners alias results streamError (ProcessError err # evs) =
     listeners alias results (Some err) evs"
| "listeners alias results streamError (ProcessExit code # evs) =
     listeners alias results streamError evs"

text \<open>
  \<^verbatim>\<open>getOrgDetail(alias)\<close>. \<open>spawn\<close> stands for \<^verbatim>\<open>childProcess.spawn\<close>: the events
  that the command with these arguments delivers.
\<close>

definition args :: "string option \<Rightarrow> string list" where
  "args alias =
     [''force:org:display'', ''--json''] @
     (case alias of
        None \<Rightarrow> []
      | Some a \<Rightarrow> if a = [] then [] else [''-u'', a])"

definition getOrgDetail ::
  "(string \<Rightarrow> string list \<Rightarrow> proc_event list) \<Rightarrow> string option \<Rightarrow> string promise" where
  "getOrgDetail spawn alias = listeners alias [] None (spawn ''sfdx'' (args alias))"

section \<open>The class SalesforceCliConnector\<close>

record SalesforceCliConnector =
  traceLevel :: int

text \<open>
  \<^verbatim>\<open>getConnectionDetail(alias)\<close>, with the lines it logs. \<open>JSON_parse\<close> stands for the
  runtime's \<^verbatim>\<open>JSON.parse\<close>. The body is an \<^verbatim>\<open>async\<close> promise executor: what it throws
  outside its two \<^verbatim>\<open>try\<close> blocks settles nothing, and the promise stays pending.
\<close>

definition getConnectionDetail ::
  "(string \<Rightarrow> js_error + jsval) \<Rightarrow> (string \<Rightarrow> string list \<Rightarrow> proc_event list) \<Rightarrow>
   SalesforceCliConnector \<Rightarrow> string option \<Rightarrow> jsval promise \<times> log_entry list" where
  "getConnectionDetail JSON_parse spawn self alias =
     (case getOrgDetail spawn alias of
        Rejected err \<Rightarrow> (Rejected err, [])
      | Pending \<Rightarrow> (Pending, [])
      | Resolved conn \<Rightarrow>
          (let logged =
                 (if traceLevel self > ERROR_LEVEL_BASIC
                  then [LogInfo ''captured result: %o'' [JStr conn]] else [])
           in case JSON_parse conn of
                Inl err \<Rightarrow>
                  (Rejected (IsDeveloperError
                     \<lparr>message = JStr (''Unable to get connection:'' @ alias_or_default alias),
                      detailMessage = JStr (err_message err),
                      stack = JStr (err_stack err)\<rparr>), logged)
              | Inr connObj \<Rightarrow>
                  (case get_prop connObj ''status'' of
                     Inl err \<Rightarrow> (Pending, logged)
                   | Inr status \<Rightarrow>
                       if status = JNum 0 then
                         (case get_prop connObj ''result'' of
                            Inl err \<Rightarrow> (Pending, logged)
                          | Inr result \<Rightarrow> (Resolved result, logged))
                       else
                         (case get_prop connObj ''message'' of
                            Inl err \<Rightarrow> (Pending, logged)
                          | Inr msg \<Rightarrow>
                              (case get_prop connObj ''stack'' of
                                 Inl err \<Rightarrow> (Pending, logged)
                               | Inr stk \<Rightarrow>
                                   (Rejected (IsDeveloperError
                                      \<lparr>message = JStr (''Unable to find connection:''
                                           @ alias_or_default alias),
                                       detailMessage = msg,
                                       stack = stk\<rparr>), logged))))))"

text \<open>
  The options of \<^verbatim>\<open>new JsForce.Connection({serverUrl: ..., sessionId: ...})\<close>. The
  constructor belongs to the client library: it is a parameter, \<open>JsForce_Connection\<close>,
  that returns the connection object or throws.
\<close>

record ConnectionOptions =
  serverUrl :: jsval
  sessionId :: jsval

text \<open>
  \<^verbatim>\<open>getConnection(alias)\<close>: \<open>None\<close> is the \<^verbatim>\<open>null\<close> it resolves to in its
  \<^verbatim>\<open>catch\<close> clause. The whole body is inside the \<^verbatim>\<open>try\<close>: the two property reads and
  the call of the constructor as well as the \<^verbatim>\<open>await\<close>. A resolution that never settles
  leaves \<^verbatim>\<open>getConnection\<close> pending.
\<close>

definition getConnection ::
  "(string \<Rightarrow> js_error + jsval) \<Rightarrow> (string \<Rightarrow> string list \<Rightarrow> proc_event list) \<Rightarrow>
   (ConnectionOptions \<Rightarrow> js_error + 'c) \<Rightarrow>
   SalesforceCliConnector \<Rightarrow> string option \<Rightarrow> 'c option promise \<times> log_entry list" where
  "getConnection JSON_parse spawn JsForce_Connection this alias =
     (case getConnectionDetail JSON_parse spawn this alias of
        (Pending, logged) \<Rightarrow> (Pending, logged)
      | (Rejected err, logged) \<Rightarrow>
          (Resolved None, logged @ log (importError err) (traceLevel this))
      | (Resolved connectionInfo, logged) \<Rightarrow>
          (case get_prop connectionInfo ''instanceUrl'' of
             Inl err \<Rightarrow>
               (Resolved None, logged @ log (importError (IsError err)) (traceLevel this))
           | Inr instanceUrl \<Rightarrow>
               (case get_prop connectionInfo ''accessToken'' of
                  Inl err \<Rightarrow>
                    (Resolved None, logged @ log (importError (IsError err)) (traceLevel this))
                | Inr accessToken \<Rightarrow>
                    (case JsForce_Connection
                            \<lparr>serverUrl = instanceUrl, sessionId = accessToken\<rparr> of
                       Inl err \<Rightarrow>
                         (Resolved None,
                          logged @ log (importError (IsError err)) (traceLevel this))
                     | Inr connection \<Rightarrow> (Resolved (Some connection), logged)))))"

section \<open>JSON.stringify with an indentation of two spaces\<close>

text \<open>
  \<^verbatim>\<open>JSON.stringify(value, null, 2)\<close> of the language standard on the values above:
  \<open>None\<close> is the \<^verbatim>\<open>undefined\<close> it returns for \<^verbatim>\<open>undefined\<close>; an \<^verbatim>\<open>undefined\<close>
  array element is written \<^verbatim>\<open>null\<close>, an \<^verbatim>\<open>undefined\<close> property is left out.
\<close>

fun digit_string :: "nat \<Rightarrow> string" where
  "digit_string n =
     (if n < 10 then [char_of (48 + n)]
      else digit_string (n div 10) @ [char_of (48 + n mod 10)])"

declare digit_string.simps [simp del]

definition Number_toString :: "int \<Rightarrow> string" where
  "Number_toString n = (if n < 0 then ''-'' @ digit_string (nat (- n)) else digit_string (nat n))"

definition hex_digit :: "nat \<Rightarrow> char" where
  "hex_digit n = ''0123456789abcdef'' ! (n mod 16)"

definition QuoteJSONChar :: "char \<Rightarrow> string" where
  "QuoteJSONChar c =
     (if c = CHR 0x08 then [CHR 0x5C, CHR ''b'']
      else if c = CHR 0x09 then [CHR 0x5C, CHR ''t'']
      else if c = CHR 0x0A then [CHR 0x5C, CHR ''n'']
      else if c = CHR 0x0C then [CHR 0x5C, CHR ''f'']
      else if c = CHR 0x0D then [CHR 0x5C, CHR ''r'']
      else if c = CHR 0x22 then [CHR 0x5C, CHR 0x22]
      else if c = CHR 0x5C then [CHR 0x5C, CHR 0x5C]
      else if (of_char c :: nat) < 32 then
        [CHR 0x5C, CHR ''u'', CHR ''0'', CHR ''0'', hex_digit (of_char c div 16), hex_digit (of_char c)]
      else [c])"

definition QuoteJSONString :: "string \<Rightarrow> string" where
  "QuoteJSONString s = [CHR 0x22] @ concat (map QuoteJSONChar s) @ [CHR 0x22]"

fun join :: "string \<Rightarrow> string list \<Rightarrow> string" where
  "join sep [] = []"
| "join sep [x] = x"
| "join sep (x # y # ys) = x @ sep @ join sep (y # ys)"

definition gap :: string where
  "gap = ''  ''"

definition wrap :: "string \<Rightarrow> string \<Rightarrow> string \<Rightarrow> string list \<Rightarrow> string" where
  "wrap opening closing stepback partial =
     (if partial = [] then opening @ closing
      else opening @ [CHR 0x0A] @ (stepback @ gap)
           @ join ('','' @ [CHR 0x0A] @ (stepback @ gap)) partial
           @ [CHR 0x0A] @ stepback @ closing)"

fun SerializeJSONProperty :: "string \<Rightarrow> jsval \<Rightarrow> string option" where
  "SerializeJSONProperty indent JUndefined = None"
| "SerializeJSONProperty indent JNull = Some ''null''"
| "SerializeJSONProperty indent (JBool b) = Some (if b then ''true'' else ''false'')"
| "SerializeJSONProperty indent (JNum n) = Some (Number_toString n)"
| "SerializeJSONProperty indent (JStr s) = Some (QuoteJSONString s)"
| "SerializeJSONProperty indent (JArr xs) =
     Some (wrap ''['' '']'' indent
       (map (\<lambda>x. case SerializeJSONProperty (indent @ gap) x of
                    None \<Rightarrow> ''null'' | Some strP \<Rightarrow> strP) xs))"
| "SerializeJSONProperty indent (JObj kvs) =
     Some (wrap ''{'' ''}'' indent
       (concat (map (\<lambda>(k, v). case SerializeJSONProperty (indent @ gap) v of
                    None \<Rightarrow> [] | Some strP \<Rightarrow> [QuoteJSONString k @ '': '' @ strP]) kvs)))"

definition JSON_stringify :: "jsval \<Rightarrow> string option" where
  "JSON_stringify v = SerializeJSONProperty [] v"


section \<open>Paths and the file system\<close>

text \<open>
  \<^verbatim>\<open>path.resolve\<close> on POSIX paths: a path that is not absolute is put behind the working
  directory, the string is split at the separators, and \<open>normalizeString\<close> drops the empty
  segments and the segments \<^verbatim>\<open>.\<close>, while a segment \<^verbatim>\<open>..\<close> removes the segment before it
  (none at the root). \<open>locate\<close> is the list of segments that results, \<open>path_resolve\<close> the
  path written out.
\<close>

fun split_path :: "string \<Rightarrow> string list" where
  "split_path [] = [[]]"
| "split_path (c # cs) =
     (if c = CHR ''/'' then [] # split_path cs
      else (case split_path cs of [] \<Rightarrow> [[c]] | s # ss \<Rightarrow> (c # s) # ss))"

fun normalizeString :: "string list \<Rightarrow> string list \<Rightarrow> string list" where
  "normalizeString res [] = res"
| "normalizeString res (s # ss) =
     (if s = [] \<or> s = ''.'' then normalizeString res ss
      else if s = ''..'' then normalizeString (butlast res) ss
      else normalizeString (res @ [s]) ss)"

text \<open>A segment that normalisation keeps: not empty, no dot segment, no separator in it.\<close>

definition clean_segment :: "string \<Rightarrow> bool" where
  "clean_segment s = (s \<noteq> [] \<and> s \<noteq> ''.'' \<and> s \<noteq> ''..'' \<and> CHR ''/'' \<notin> set s)"

definition isAbsolute :: "string \<Rightarrow> bool" where
  "isAbsolute p = (case p of [] \<Rightarrow> False | c # cs \<Rightarrow> c = CHR ''/'')"

definition locate :: "string \<Rightarrow> string \<Rightarrow> string list" where
  "locate dir p = normalizeString [] (split_path (if isAbsolute p then p else dir @ ''/'' @ p))"

definition render :: "string list \<Rightarrow> string" where
  "render segs = (if segs = [] then ''/'' else concat (map (\<lambda>s. CHR ''/'' # s) segs))"

definition path_resolve :: "string \<Rightarrow> string \<Rightarrow> string" where
  "path_resolve dir p = render (locate dir p)"

text \<open>
  The file system, as far as the calls of the helpers to \<^verbatim>\<open>fs-extra\<close> (and through it to
  Node's \<^verbatim>\<open>fs\<close>) depend on it: the working directory of the process and the entries, each
  under the segments of its absolute path, in the order a listing enumerates them. The root
  is always a directory. An entry can carry a fault, the error with which the operating
  system refuses to read, write or list it (\<^verbatim>\<open>EACCES\<close>, \<^verbatim>\<open>EIO\<close>): this is where an error
  after a successful existence test comes from. There are no symbolic links, so the
  system reaches the entry that \<^verbatim>\<open>path.resolve\<close> names.
\<close>

datatype node =
    File "js_error option" string
  | Directory "js_error option"

record filesystem =
  cwd :: string
  nodes :: "(string list \<times> node) list"

definition errno :: "string \<Rightarrow> string \<Rightarrow> js_error" where
  "errno code p = JsError (code @ '': '' @ p) (''Error: '' @ code @ '': '' @ p)"

definition lookup :: "filesystem \<Rightarrow> string list \<Rightarrow> node option" where
  "lookup fs key = (if key = [] then Some (Directory None) else map_of (nodes fs) key)"

definition stat :: "filesystem \<Rightarrow> string \<Rightarrow> node option" where
  "stat fs p = lookup fs (locate (cwd fs) p)"

definition existsSync :: "filesystem \<Rightarrow> string \<Rightarrow> bool" where
  "existsSync fs p = (stat fs p \<noteq> None)"

definition readFileSync :: "filesystem \<Rightarrow> string \<Rightarrow> js_error + string" where
  "readFileSync fs p =
     (case stat fs p of
        None \<Rightarrow> Inl (errno ''ENOENT'' p)
      | Some (Directory fault) \<Rightarrow> Inl (errno ''EISDIR'' p)
      | Some (File (Some err) text) \<Rightarrow> Inl err
      | Some (File None text) \<Rightarrow> Inr text)"

text \<open>
  \<^verbatim>\<open>fs.writeFileSync(path, data)\<close>: data that is no string is refused before the file is
  opened (Node 14 and later); a directory, a file with a fault and a parent that is missing,
  no directory or at fault are refused; otherwise the file is created or replaced.
\<close>

definition writeFileSync :: "filesystem \<Rightarrow> string \<Rightarrow> string option \<Rightarrow> js_error + filesystem" where
  "writeFileSync fs p data =
     (case data of
        None \<Rightarrow> Inl (TypeError ''The data argument must be of type string. Received undefined'')
      | Some text \<Rightarrow>
          (let key = locate (cwd fs) p;
               stored = fs\<lparr>nodes := AList.update key (File None text) (nodes fs)\<rparr>
           in case lookup fs key of
                Some (Directory fault) \<Rightarrow> Inl (errno ''EISDIR'' p)
              | Some (File (Some err) old) \<Rightarrow> Inl err
              | Some (File None old) \<Rightarrow> Inr stored
              | None \<Rightarrow>
                  (case lookup fs (butlast key) of
                     None \<Rightarrow> Inl (errno ''ENOENT'' p)
                   | Some (File fault old) \<Rightarrow> Inl (errno ''ENOTDIR'' p)
                   | Some (Directory (Some err)) \<Rightarrow> Inl err
                   | Some (Directory None) \<Rightarrow> Inr stored)))"

definition readdirSync :: "filesystem \<Rightarrow> string \<Rightarrow> js_error + string list" where
  "readdirSync fs p =
     (case stat fs p of
        None \<Rightarrow> Inl (errno ''ENOENT'' p)
      | Some (File fault text) \<Rightarrow> Inl (errno ''ENOTDIR'' p)
      | Some (Directory (Some err)) \<Rightarrow> Inl err
      | Some (Directory None) \<Rightarrow>
          Inr [last key. (key, n) \<leftarrow> nodes fs, key \<noteq> [] \<and> butlast key = locate (cwd fs) p])"

text \<open>
  \<^verbatim>\<open>fs.ensureDirSync(dir)\<close> of \<^verbatim>\<open>fs-extra\<close>: nothing to do, and \<^verbatim>\<open>undefined\<close> returned, for
  a directory that exists; \<^verbatim>\<open>EEXIST\<close> thrown for a regular file; otherwise the missing
  directories are made and the first of them is returned.
\<close>

fun mkdirs :: "filesystem \<Rightarrow> string list \<Rightarrow> string list \<Rightarrow> jsval \<Rightarrow> js_error + jsval \<times> filesystem" where
  "mkdirs fs pre [] made = Inr (made, fs)"
| "mkdirs fs pre (s # ss) made =
     (case lookup fs (pre @ [s]) of
        Some (Directory fault) \<Rightarrow> mkdirs fs (pre @ [s]) ss made
      | Some (File fault text) \<Rightarrow>
          Inl (errno (if ss = [] then ''EEXIST'' else ''ENOTDIR'') (render (pre @ [s])))
      | None \<Rightarrow>
          (case lookup fs pre of
             Some (Directory (Some err)) \<Rightarrow> Inl err
           | other \<Rightarrow>
               mkdirs (fs\<lparr>nodes := nodes fs @ [(pre @ [s], Directory None)]\<rparr>) (pre @ [s]) ss
                 (if made = JUndefined then JStr (render (pre @ [s])) else made)))"

definition ensureDirSync :: "filesystem \<Rightarrow> string \<Rightarrow> js_error + jsval \<times> filesystem" where
  "ensureDirSync fs p =
     (case stat fs p of
        Some (Directory fault) \<Rightarrow> Inr (JUndefined, fs)
      | Some (File fault text) \<Rightarrow> Inl (errno ''EEXIST'' p)
      | None \<Rightarrow> mkdirs fs [] (locate (cwd fs) p) JUndefined)"

text \<open>
  \<^verbatim>\<open>fs.readJsonSync(file, options)\<close> of \<^verbatim>\<open>fs-extra\<close>: the file is read, a byte order mark
  at its start is dropped, and the rest is parsed; an error of the read or of the parse is
  thrown again with the file in front of its message.
\<close>

definition stripBom :: "string \<Rightarrow> string" where
  "stripBom content =
     (if take 3 content = [CHR 0xEF, CHR 0xBB, CHR 0xBF] then drop 3 content else content)"

definition readJsonSync ::
  "(string \<Rightarrow> js_error + jsval) \<Rightarrow> filesystem \<Rightarrow> string \<Rightarrow> js_error + jsval" where
  "readJsonSync JSON_parse fs file =
     (case readFileSync fs file of
        Inl err \<Rightarrow> Inl (JsError (file @ '': '' @ err_message err) (err_stack err))
      | Inr content \<Rightarrow>
          (case JSON_parse (stripBom content) of
             Inl err \<Rightarrow> Inl (JsError (file @ '': '' @ err_message err) (err_stack err))
           | Inr obj \<Rightarrow> Inr obj))"

text \<open>The test \<^verbatim>\<open>if (value)\<close>.\<close>

fun truthy :: "jsval \<Rightarrow> bool" where
  "truthy JUndefined = False"
| "truthy JNull = False"
| "truthy (JBool b) = b"
| "truthy (JNum n) = (n \<noteq> 0)"
| "truthy (JStr s) = (s \<noteq> [])"
| "truthy (JArr xs) = True"
| "truthy (JObj kvs) = True"

section \<open>The file helpers of the connector\<close>

text \<open>
  How a call of a helper ends: it returns a value, or raises. Each helper is given with the
  lines it logs; \<^verbatim>\<open>writeFile\<close> and \<^verbatim>\<open>listFiles\<close> also with the file system they leave.
\<close>

datatype 'a completion =
    Returned 'a
  | Raised thrown

definition readJSON ::
  "(string \<Rightarrow> js_error + jsval) \<Rightarrow> SalesforceCliConnector \<Rightarrow> filesystem \<Rightarrow> string \<Rightarrow>
   jsval completion \<times> log_entry list" where
  "readJSON JSON_parse this fs filePath =
     (let resolvedPath = path_resolve (cwd fs) filePath in
      if \<not> existsSync fs resolvedPath then
        (Returned JUndefined, [LogError ''File does not exist: %s'' [JStr resolvedPath]])
      else
        (case readJsonSync JSON_parse fs resolvedPath of
           Inr result \<Rightarrow> (Returned result, [])
         | Inl err \<Rightarrow>
             (Returned JUndefined,
              log \<lparr>message = JStr (''unable to read file: '' @ resolvedPath),
                   detailMessage = JStr (err_message err),
                   stack = JStr (err_stack err)\<rparr> (traceLevel this))))"

definition readFile ::
  "SalesforceCliConnector \<Rightarrow> filesystem \<Rightarrow> string \<Rightarrow> jsval completion \<times> log_entry list" where
  "readFile this fs filePath =
     (let resolvedPath = path_resolve (cwd fs) filePath in
      if \<not> existsSync fs resolvedPath then
        (Returned JUndefined, [LogError ''File does not exist: %s'' [JStr resolvedPath]])
      else
        (case readFileSync fs resolvedPath of
           Inr result \<Rightarrow> (Returned (JStr result), [])
         | Inl err \<Rightarrow>
             (Returned JUndefined,
              log \<lparr>message = JStr (''unable to read file: '' @ resolvedPath),
                   detailMessage = JStr (err_message err),
                   stack = JStr (err_stack err)\<rparr> (traceLevel this))))"

definition writeFile ::
  "SalesforceCliConnector \<Rightarrow> filesystem \<Rightarrow> string \<Rightarrow> jsval \<Rightarrow>
   jsval completion \<times> log_entry list \<times> filesystem" where
  "writeFile this fs filePath contents =
     (let jsonContents = JSON_stringify contents in
      case writeFileSync fs filePath jsonContents of
        Inr fs' \<Rightarrow> (Returned JUndefined, [], fs')
      | Inl err \<Rightarrow>
          (Returned JUndefined,
           log \<lparr>message = JStr (''unable to write to file: '' @ filePath),
                detailMessage = JStr (err_message err),
                stack = JStr (err_stack err)\<rparr> (traceLevel this),
           fs))"

definition listFiles ::
  "SalesforceCliConnector \<Rightarrow> filesystem \<Rightarrow> string \<Rightarrow>
   jsval completion \<times> log_entry list \<times> filesystem" where
  "listFiles this fs directoryPath =
     (let resolvedPath = path_resolve (cwd fs) directoryPath in
      if \<not> existsSync fs resolvedPath then
        (Returned JUndefined, [LogError ''Path does not exist: %s'' [JStr resolvedPath]], fs)
      else
        (case ensureDirSync fs resolvedPath of
           Inl err \<Rightarrow> (Raised (IsError err), [], fs)
         | Inr (made, fs') \<Rightarrow>
             if truthy made then
               (Returned JUndefined,
                [LogError (''Path is not a directory:'' @ resolvedPath) []], fs')
             else
               (case readdirSync fs' resolvedPath of
                  Inr results \<Rightarrow> (Returned (JArr (map JStr results)), [], fs')
                | Inl err \<Rightarrow>
                    (Returned JUndefined,
                     log \<lparr>message = JStr (''unable to read directory: '' @ resolvedPath),
                          detailMessage = JStr (err_message err),
                          stack = JStr (err_stack err)\<rparr> (traceLevel this),
                     fs'))))"

section \<open>Events of the child process, classified\<close>

text \<open>
  A launch that fails (the command is not on the search path) is delivered as an
  \<^verbatim>\<open>error\<close> event of the process, followed by the close of its standard output.
\<close>

fun is_close :: "proc_event \<Rightarrow> bool" where
  "is_close (StdoutClose code) = True"
| "is_close ev = False"

fun is_error :: "proc_event \<Rightarrow> bool" where
  "is_error (ProcessError err) = True"
| "is_error ev = False"

text \<open>The same event of a process that ends with another exit code.\<close>

fun with_code :: "int \<Rightarrow> proc_event \<Rightarrow> proc_event" where
  "with_code c (StdoutClose code) = StdoutClose c"
| "with_code c (ProcessExit code) = ProcessExit c"
| "with_code c ev = ev"

section \<open>Example inputs\<close>

definition quoted :: "string \<Rightarrow> string" where
  "quoted s = CHR 0x22 # s @ [CHR 0x22]"

text \<open>
  The two responses of the tool that the specification gives as examples: a result
  record behind status 0, and a failure with status 1.
\<close>

definition success_text :: string where
  "success_text =
     ''{'' @ quoted ''status'' @ '':0,'' @ quoted ''result'' @ '':{''
       @ quoted ''instanceUrl'' @ '':'' @ quoted ''https://x'' @ '',''
       @ quoted ''accessToken'' @ '':'' @ quoted ''tok'' @ ''}}''"

definition success_value :: jsval where
  "success_value =
     JObj [(''status'', JNum 0),
           (''result'', JObj [(''instanceUrl'', JStr ''https://x''), (''accessToken'', JStr ''tok'')])]"

definition failure_text :: string where
  "failure_text =
     ''{'' @ quoted ''status'' @ '':1,'' @ quoted ''message'' @ '':'' @ quoted ''no such org''
       @ '','' @ quoted ''stack'' @ '':'' @ quoted ''...'' @ ''}''"

definition failure_value :: jsval where
  "failure_value =
     JObj [(''status'', JNum 1), (''message'', JStr ''no such org''), (''stack'', JStr ''...'')]"

text \<open>A response whose result record has all seven fields of \<^verbatim>\<open>OrgDetailResult\<close>.\<close>

definition full_text :: string where
  "full_text =
     ''{'' @ quoted ''status'' @ '':0,'' @ quoted ''result'' @ '':{''
       @ quoted ''username'' @ '':'' @ quoted ''me@example.com'' @ '',''
       @ quoted ''id'' @ '':'' @ quoted ''00D'' @ '',''
       @ quoted ''connectedStatus'' @ '':'' @ quoted ''Connected'' @ '',''
       @ quoted ''accessToken'' @ '':'' @ quoted ''tok'' @ '',''
       @ quoted ''instanceUrl'' @ '':'' @ quoted ''https://x'' @ '',''
       @ quoted ''clientId'' @ '':'' @ quoted ''PlatformCLI'' @ '',''
       @ quoted ''alias'' @ '':'' @ quoted ''myorg'' @ ''}}''"

definition full_value :: jsval where
  "full_value =
     JObj [(''status'', JNum 0),
           (''result'', JObj [(''username'', JStr ''me@example.com''), (''id'', JStr ''00D''),
              (''connectedStatus'', JStr ''Connected''), (''accessToken'', JStr ''tok''),
              (''instanceUrl'', JStr ''https://x''), (''clientId'', JStr ''PlatformCLI''),
              (''alias'', JStr ''myorg'')])]"

text \<open>A response whose result record has a number where the instance URL should be.\<close>

definition numeric_text :: string where
  "numeric_text =
     ''{'' @ quoted ''status'' @ '':0,'' @ quoted ''result'' @ '':{''
       @ quoted ''instanceUrl'' @ '':5,''
       @ quoted ''accessToken'' @ '':'' @ quoted ''tok'' @ ''}}''"

definition numeric_value :: jsval where
  "numeric_value =
     JObj [(''status'', JNum 0),
           (''result'', JObj [(''instanceUrl'', JNum 5), (''accessToken'', JStr ''tok'')])]"

definition a1_text :: string where
  "a1_text = ''{'' @ [CHR 0x0A] @ ''  '' @ quoted ''a'' @ '': 1'' @ [CHR 0x0A] @ ''}''"

definition a1_value :: jsval where
  "a1_value = JObj [(''a'', JNum 1)]"

text \<open>
  \<^verbatim>\<open>JSON.parse\<close> on the texts of the examples: the five above and \<^verbatim>\<open>null\<close>. The
  one other text the examples hand to it, \<^verbatim>\<open>sfdx: command not found\<close>, is no JSON.
\<close>

definition example_JSON_parse :: "string \<Rightarrow> js_error + jsval" where
  "example_JSON_parse text =
     (if text = success_text then Inr success_value
      else if text = failure_text then Inr failure_value
      else if text = full_text then Inr full_value
      else if text = numeric_text then Inr numeric_value
      else if text = a1_text then Inr a1_value
      else if text = ''null'' then Inr JNull
      else Inl (JsError ''Unexpected token s in JSON at position 0''
                  ''SyntaxError: Unexpected token s in JSON at position 0''))"

text \<open>
  A constructor for the examples. The connection it returns is known by its options; like
  a constructor that splits the server URL at its separators, it throws when the server URL
  is neither a string nor \<^verbatim>\<open>undefined\<close>.
\<close>

definition example_Connection :: "ConnectionOptions \<Rightarrow> js_error + ConnectionOptions" where
  "example_Connection options =
     (case serverUrl options of
        JStr url \<Rightarrow> Inr options
      | JUndefined \<Rightarrow> Inr options
      | other \<Rightarrow> Inl (TypeError ''options.serverUrl.split is not a function''))"

text \<open>A tool that prints a text and ends, and a tool that cannot be started.\<close>

definition tool_prints :: "string \<Rightarrow> string \<Rightarrow> string list \<Rightarrow> proc_event list" where
  "tool_prints text command argv = [StdoutData text, ProcessExit 0, StdoutClose 0]"

definition tool_missing :: "string \<Rightarrow> string list \<Rightarrow> proc_event list" where
  "tool_missing command argv =
     [ProcessError (JsError ''spawn sfdx ENOENT'' ''Error: spawn sfdx ENOENT''), StdoutClose 0]"

text \<open>
  A working directory with a readable file, a file and a directory that refuse access,
  and no directory \<^verbatim>\<open>tmp\<close>.
\<close>

definition example_fs :: filesystem where
  "example_fs =
     \<lparr>cwd = ''/home/user'',
      nodes =
        [([''home''], Directory None),
         ([''home'', ''user''], Directory None),
         ([''home'', ''user'', ''README.md''], File None ''hello''),
         ([''home'', ''user'', ''locked.json''],
            File (Some (errno ''EACCES'' ''/home/user/locked.json'')) ''{}''),
         ([''home'', ''user'', ''private''],
            Directory (Some (errno ''EACCES'' ''/home/user/private'')))]\<rparr>"

section \<open>Properties\<close>

subsection \<open>Unfolding the definitions\<close>

lemmas example_defs =
  example_JSON_parse_def tool_prints_def tool_missing_def success_text_def success_value_def
  failure_text_def failure_value_def full_text_def full_value_def numeric_text_def
  numeric_value_def a1_text_def a1_value_def example_Connection_def quoted_def

lemmas connector_defs =
  getConnection_def getConnectionDetail_def getOrgDetail_def args_def alias_or_default_def
  log_def ERROR_LEVEL_NONE_def ERROR_LEVEL_BASIC_def TypeError_def Let_def

subsection \<open>The resolution\<close>

lemma listeners_rejects_DeveloperError:
  "listeners alias results streamError evs = Rejected err \<Longrightarrow> \<exists>d. err = IsDeveloperError d"
  by (induction "alias" "results" "streamError" "evs" rule: listeners.induct)
     (auto split: option.splits)

lemma getConnectionDetail_rejects_DeveloperError:
  assumes "fst (getConnectionDetail JSON_parse spawn self alias) = Rejected err"
  shows "\<exists>d. err = IsDeveloperError d"
  using assms listeners_rejects_DeveloperError [of "alias" "[]" None "spawn ''sfdx'' (args alias)"]
  by (auto simp: getConnectionDetail_def getOrgDetail_def Let_def
           split: promise.splits sum.splits if_splits)

lemma getConnection_after_rejection:
  assumes "fst (getConnectionDetail JSON_parse spawn this alias) = Rejected err"
  shows "getConnection JSON_parse spawn JsForce_Connection this alias =
           (Resolved None,
            snd (getConnectionDetail JSON_parse spawn this alias)
              @ log (importError err) (traceLevel this))"
  using assms by (cases "getConnectionDetail JSON_parse spawn this alias") (simp add: getConnection_def)

lemma getConnection_never_rejects:
  "fst (getConnection JSON_parse spawn JsForce_Connection this alias) \<noteq> Rejected err"
  by (cases "getConnectionDetail JSON_parse spawn this alias")
     (auto simp: getConnection_def split: promise.splits sum.splits)

lemma get_prop_defined:
  "v \<noteq> JNull \<Longrightarrow> v \<noteq> JUndefined \<Longrightarrow> \<exists>x. get_prop v k = Inr x"
  by (cases v) auto

lemma listeners_with_code:
  "listeners alias results streamError (map (with_code c) evs) = listeners alias results streamError evs"
  by (induction "alias" "results" "streamError" "evs" rule: listeners.induct) auto

lemma getConnectionDetail_with_code:
  "getConnectionDetail JSON_parse (\<lambda>command argv. map (with_code c) (spawn command argv)) self alias =
   getConnectionDetail JSON_parse spawn self alias"
  by (simp add: getConnectionDetail_def getOrgDetail_def listeners_with_code)

subsection \<open>C1: getConnection and the failures of the resolution\<close>

text \<open>
  Claim C1: whatever makes the resolution fail, \<^verbatim>\<open>getConnection\<close> logs the error and
  resolves to \<^verbatim>\<open>null\<close>. The code misses one failure. When the tool prints the text
  \<^verbatim>\<open>null\<close>, \<^verbatim>\<open>JSON.parse\<close> returns \<^verbatim>\<open>null\<close>, reading its \<^verbatim>\<open>status\<close> throws in the
  \<^verbatim>\<open>async\<close> executor of \<^verbatim>\<open>getConnectionDetail\<close> outside both \<^verbatim>\<open>try\<close> blocks, that
  promise never settles, and \<^verbatim>\<open>getConnection\<close> waits for it: nothing is logged and
  nothing is resolved.
\<close>

theorem getConnection_null_stays_pending:
  "example_JSON_parse ''null'' = Inr JNull
   \<and> getOrgDetail (tool_prints ''null'') None = Resolved ''null''
   \<and> getConnection example_JSON_parse (tool_prints ''null'') example_Connection
        \<lparr>traceLevel = 0\<rparr> None = (Pending, [])"
  by (simp add: example_defs connector_defs)

text \<open>
  On every other path the code does what the claim says. Whenever
  \<^verbatim>\<open>getConnectionDetail\<close> rejects, \<^verbatim>\<open>getConnection\<close> resolves to \<^verbatim>\<open>null\<close> and logs
  the error it caught, through \<^verbatim>\<open>importError\<close>, at the trace level of the connector,
  after the lines of the resolution itself. A failed launch, an output that does not parse
  and a status that can be read and is not 0 each make the resolution reject with a
  \<^verbatim>\<open>DeveloperError\<close>, which is the error logged. On no input does \<^verbatim>\<open>getConnection\<close>
  reject.
\<close>

lemma getConnection_swallows_rejection:
  "(fst (getConnectionDetail JSON_parse spawn this alias) = Rejected err \<longrightarrow>
      getConnection JSON_parse spawn JsForce_Connection this alias =
        (Resolved None,
         snd (getConnectionDetail JSON_parse spawn this alias)
           @ log (importError err) (traceLevel this)))
   \<and> ((\<exists>e. getOrgDetail spawn alias = Rejected e)
        \<or> (\<exists>out e. getOrgDetail spawn alias = Resolved out \<and> JSON_parse out = Inl e)
        \<or> (\<exists>out connObj status. getOrgDetail spawn alias = Resolved out
              \<and> JSON_parse out = Inr connObj
              \<and> get_prop connObj ''status'' = Inr status \<and> status \<noteq> JNum 0) \<longrightarrow>
       (\<exists>d. fst (getConnectionDetail JSON_parse spawn this alias) = Rejected (IsDeveloperError d)
          \<and> getConnection JSON_parse spawn JsForce_Connection this alias =
               (Resolved None,
                snd (getConnectionDetail JSON_parse spawn this alias) @ log d (traceLevel this))))
   \<and> fst (getConnection JSON_parse spawn JsForce_Connection this alias) \<noteq> Rejected err'"
proof (intro conjI impI)
  assume "fst (getConnectionDetail JSON_parse spawn this alias) = Rejected err"
  then show "getConnection JSON_parse spawn JsForce_Connection this alias =
        (Resolved None,
         snd (getConnectionDetail JSON_parse spawn this alias)
           @ log (importError err) (traceLevel this))"
    by (rule getConnection_after_rejection)
next
  assume reason: "(\<exists>e. getOrgDetail spawn alias = Rejected e)
        \<or> (\<exists>out e. getOrgDetail spawn alias = Resolved out \<and> JSON_parse out = Inl e)
        \<or> (\<exists>out connObj status. getOrgDetail spawn alias = Resolved out
              \<and> JSON_parse out = Inr connObj
              \<and> get_prop connObj ''status'' = Inr status \<and> status \<noteq> JNum 0)"
  have "\<exists>e. fst (getConnectionDetail JSON_parse spawn this alias) = Rejected e"
  proof -
    consider (launch) e where "getOrgDetail spawn alias = Rejected e"
      | (parse) out e where "getOrgDetail spawn alias = Resolved out" "JSON_parse out = Inl e"
      | (status) out connObj status where "getOrgDetail spawn alias = Resolved out"
          "JSON_parse out = Inr connObj" "get_prop connObj ''status'' = Inr status"
          "status \<noteq> JNum 0"
      using reason by blast
    then show ?thesis
    proof cases
      case launch
      then show ?thesis by (simp add: getConnectionDetail_def)
    next
      case parse
      then show ?thesis by (simp add: getConnectionDetail_def Let_def)
    next
      case status
      from status(3) have "connObj \<noteq> JNull" "connObj \<noteq> JUndefined" by auto
      then obtain msg stk where "get_prop connObj ''message'' = Inr msg"
        "get_prop connObj ''stack'' = Inr stk"
        using get_prop_defined by blast
      with status show ?thesis by (simp add: getConnectionDetail_def Let_def)
    qed
  qed
  then obtain e where e: "fst (getConnectionDetail JSON_parse spawn this alias) = Rejected e" ..
  then obtain d where d: "e = IsDeveloperError d"
    using getConnectionDetail_rejects_DeveloperError by blast
  from getConnection_after_rejection [OF e] e d
  show "\<exists>d. fst (getConnectionDetail JSON_parse spawn this alias) = Rejected (IsDeveloperError d)
          \<and> getConnection JSON_parse spawn JsForce_Connection this alias =
               (Resolved None,
                snd (getConnectionDetail JSON_parse spawn this alias) @ log d (traceLevel this))"
    by auto
next
  show "fst (getConnection JSON_parse spawn JsForce_Connection this alias) \<noteq> Rejected err'"
    by (rule getConnection_never_rejects)
qed

lemma getConnection_swallows_rejection_examples:
  "example_JSON_parse failure_text = Inr failure_value
   \<and> get_prop failure_value ''status'' = Inr (JNum 1)
   \<and> fst (getConnectionDetail example_JSON_parse (tool_prints failure_text)
            \<lparr>traceLevel = 0\<rparr> (Some ''myorg'')) =
       Rejected (IsDeveloperError
         \<lparr>message = JStr ''Unable to find connection:myorg'',
          detailMessage = JStr ''no such org'',
          stack = JStr ''...''\<rparr>)
   \<and> getConnection example_JSON_parse (tool_prints failure_text) example_Connection
        \<lparr>traceLevel = 0\<rparr> (Some ''myorg'') =
       (Resolved None, [LogError ''Error occurred:%s'' [JStr ''Unable to find connection:myorg'']])
   \<and> getOrgDetail (tool_prints ''sfdx: command not found'') None =
       Resolved ''sfdx: command not found''
   \<and> example_JSON_parse ''sfdx: command not found'' =
       Inl (JsError ''Unexpected token s in JSON at position 0''
              ''SyntaxError: Unexpected token s in JSON at position 0'')
   \<and> getConnection example_JSON_parse (tool_prints ''sfdx: command not found'') example_Connection
        \<lparr>traceLevel = - 1\<rparr> None = (Resolved None, [])
   \<and> getOrgDetail tool_missing None =
       Rejected (IsDeveloperError
         \<lparr>message = JStr ''Error occurred while asking the salesforce cli for alias:default, is the salesforce cli installed?'',
          detailMessage = JStr ''spawn sfdx ENOENT'',
          stack = JStr ''Error: spawn sfdx ENOENT''\<rparr>)
   \<and> getConnection example_JSON_parse tool_missing example_Connection \<lparr>traceLevel = 1\<rparr> None =
       (Resolved None,
        [LogError (''Error occurred:%s '' @ [CHR 0x0A] @ '' %s '' @ [CHR 0x0A] @ '' %o'')
           [JStr ''Error occurred while asking the salesforce cli for alias:default, is the salesforce cli installed?'',
            JStr ''spawn sfdx ENOENT'', JStr ''Error: spawn sfdx ENOENT'']])"
  using getConnection_swallows_rejection
    [of example_JSON_parse "tool_prints failure_text" "\<lparr>traceLevel = 0\<rparr>" "Some ''myorg''"
        _ example_Connection]
    getConnection_swallows_rejection
    [of example_JSON_parse "tool_prints ''sfdx: command not found''" "\<lparr>traceLevel = - 1\<rparr>" None
        _ example_Connection]
    getConnection_swallows_rejection
    [of example_JSON_parse tool_missing "\<lparr>traceLevel = 1\<rparr>" None _ example_Connection]
  by (simp add: example_defs connector_defs)

subsection \<open>C2: the status field decides between resolving and rejecting\<close>

text \<open>
  Claim C2: every response that parses is resolved with its result when the status is
  zero and rejected otherwise. The code misses the response \<^verbatim>\<open>null\<close>: \<^verbatim>\<open>JSON.parse\<close>
  returns \<^verbatim>\<open>null\<close>, reading its \<^verbatim>\<open>status\<close> throws inside the \<^verbatim>\<open>async\<close> executor, under
  no \<^verbatim>\<open>try\<close>, and the promise neither resolves nor rejects.
\<close>

theorem getConnectionDetail_null_stays_pending:
  "example_JSON_parse ''null'' = Inr JNull
   \<and> getOrgDetail (tool_prints ''null'') None = Resolved ''null''
   \<and> getConnectionDetail example_JSON_parse (tool_prints ''null'')
        \<lparr>traceLevel = 0\<rparr> None = (Pending, [])"
  by (simp add: example_defs connector_defs)

text \<open>
  Every other parsed response is treated as the claim says: the four properties read are
  defined, \<^verbatim>\<open>getConnectionDetail\<close> resolves with the \<^verbatim>\<open>result\<close> property unchanged
  exactly when the \<^verbatim>\<open>status\<close> property is the number 0, and otherwise rejects with a
  \<^verbatim>\<open>DeveloperError\<close> whose message names the alias (\<^verbatim>\<open>default\<close> for a blank one) and
  which carries the \<^verbatim>\<open>message\<close> and \<^verbatim>\<open>stack\<close> of the response. The exit code of the
  process changes nothing.
\<close>

lemma getConnectionDetail_status_decides:
  assumes "getOrgDetail spawn alias = Resolved out"
    and "JSON_parse out = Inr connObj"
    and "connObj \<noteq> JNull" and "connObj \<noteq> JUndefined"
  shows "\<exists>status result msg stk.
           get_prop connObj ''status'' = Inr status
           \<and> get_prop connObj ''result'' = Inr result
           \<and> get_prop connObj ''message'' = Inr msg
           \<and> get_prop connObj ''stack'' = Inr stk
           \<and> fst (getConnectionDetail JSON_parse spawn self alias) =
               (if status = JNum 0 then Resolved result
                else Rejected (IsDeveloperError
                  \<lparr>message = JStr (''Unable to find connection:''
                       @ (case alias of None \<Rightarrow> ''default''
                          | Some a \<Rightarrow> if a = [] then ''default'' else a)),
                   detailMessage = msg,
                   stack = stk\<rparr>))
           \<and> getConnectionDetail JSON_parse
                 (\<lambda>command argv. map (with_code c) (spawn command argv)) self alias =
               getConnectionDetail JSON_parse spawn self alias"
proof -
  from assms(3,4) obtain status result msg stk where props:
    "get_prop connObj ''status'' = Inr status" "get_prop connObj ''result'' = Inr result"
    "get_prop connObj ''message'' = Inr msg" "get_prop connObj ''stack'' = Inr stk"
    using get_prop_defined by metis
  from assms(1,2) props
  have "fst (getConnectionDetail JSON_parse spawn self alias) =
               (if status = JNum 0 then Resolved result
                else Rejected (IsDeveloperError
                  \<lparr>message = JStr (''Unable to find connection:''
                       @ (case alias of None \<Rightarrow> ''default''
                          | Some a \<Rightarrow> if a = [] then ''default'' else a)),
                   detailMessage = msg,
                   stack = stk\<rparr>))"
    by (simp add: getConnectionDetail_def alias_or_default_def Let_def)
  with props getConnectionDetail_with_code show ?thesis by blast
qed

lemma getConnectionDetail_status_decides_examples:
  "getOrgDetail (tool_prints success_text) (Some ''myorg'') = Resolved success_text
   \<and> example_JSON_parse success_text = Inr success_value
   \<and> success_value \<noteq> JNull \<and> success_value \<noteq> JUndefined
   \<and> fst (getConnectionDetail example_JSON_parse (tool_prints success_text)
            \<lparr>traceLevel = 0\<rparr> (Some ''myorg'')) =
       Resolved (JObj [(''instanceUrl'', JStr ''https://x''), (''accessToken'', JStr ''tok'')])
   \<and> getOrgDetail (tool_prints failure_text) None = Resolved failure_text
   \<and> example_JSON_parse failure_text = Inr failure_value
   \<and> failure_value \<noteq> JNull \<and> failure_value \<noteq> JUndefined
   \<and> fst (getConnectionDetail example_JSON_parse (tool_prints failure_text)
            \<lparr>traceLevel = 0\<rparr> None) =
       Rejected (IsDeveloperError
         \<lparr>message = JStr ''Unable to find connection:default'',
          detailMessage = JStr ''no such org'',
          stack = JStr ''...''\<rparr>)"
  using getConnectionDetail_status_decides
    [of "tool_prints success_text" "Some ''myorg''" success_text example_JSON_parse
        success_value "\<lparr>traceLevel = 0\<rparr>" 1]
    getConnectionDetail_status_decides
    [of "tool_prints failure_text" None failure_text example_JSON_parse
        failure_value "\<lparr>traceLevel = 0\<rparr>" 1]
  by (simp add: example_defs connector_defs)

subsection \<open>C3: the connection is built from two fields\<close>

text \<open>
  Claim C3. When the resolution yields a result record, \<^verbatim>\<open>getConnection\<close> calls the
  constructor of the connection with exactly two options: the record's \<^verbatim>\<open>instanceUrl\<close>
  as \<^verbatim>\<open>serverUrl\<close> and its \<^verbatim>\<open>accessToken\<close> as \<^verbatim>\<open>sessionId\<close>. It resolves to the
  connection the constructor returns; should the constructor throw, the error is logged
  and \<^verbatim>\<open>null\<close> is the answer. Two result records that agree on the two properties give
  the same answer, whatever else they hold and whatever the alias, the trace level and the
  rest of the response.
\<close>

theorem getConnection_uses_two_fields:
  assumes "fst (getConnectionDetail JSON_parse spawn this alias) = Resolved connectionInfo"
    and "get_prop connectionInfo ''instanceUrl'' = Inr instanceUrl"
    and "get_prop connectionInfo ''accessToken'' = Inr accessToken"
    and "fst (getConnectionDetail JSON_parse' spawn' this' alias') = Resolved connectionInfo'"
    and "get_prop connectionInfo' ''instanceUrl'' = Inr instanceUrl"
    and "get_prop connectionInfo' ''accessToken'' = Inr accessToken"
  shows "getConnection JSON_parse spawn JsForce_Connection this alias =
           (case JsForce_Connection \<lparr>serverUrl = instanceUrl, sessionId = accessToken\<rparr> of
              Inr connection \<Rightarrow>
                (Resolved (Some connection),
                 snd (getConnectionDetail JSON_parse spawn this alias))
            | Inl err \<Rightarrow>
                (Resolved None,
                 snd (getConnectionDetail JSON_parse spawn this alias)
                   @ log (importError (IsError err)) (traceLevel this)))
         \<and> fst (getConnection JSON_parse' spawn' JsForce_Connection this' alias') =
             fst (getConnection JSON_parse spawn JsForce_Connection this alias)"
proof -
  have one: "getConnection P S JsForce_Connection t a =
           (case JsForce_Connection \<lparr>serverUrl = instanceUrl, sessionId = accessToken\<rparr> of
              Inr connection \<Rightarrow> (Resolved (Some connection), snd (getConnectionDetail P S t a))
            | Inl err \<Rightarrow>
                (Resolved None,
                 snd (getConnectionDetail P S t a)
                   @ log (importError (IsError err)) (traceLevel t)))"
    if "fst (getConnectionDetail P S t a) = Resolved r"
      and "get_prop r ''instanceUrl'' = Inr instanceUrl"
      and "get_prop r ''accessToken'' = Inr accessToken"
    for P S t a r
    using that
    by (cases "getConnectionDetail P S t a") (simp add: getConnection_def split: sum.splits)
  from one [OF assms(1-3)] one [OF assms(4-6)] show ?thesis
    by (simp split: sum.splits)
qed

theorem getConnection_uses_two_fields_witness:
  "fst (getConnectionDetail example_JSON_parse (tool_prints success_text)
          \<lparr>traceLevel = 0\<rparr> (Some ''myorg'')) =
     Resolved (JObj [(''instanceUrl'', JStr ''https://x''), (''accessToken'', JStr ''tok'')])
   \<and> getConnection example_JSON_parse (tool_prints success_text) example_Connection
        \<lparr>traceLevel = 0\<rparr> (Some ''myorg'') =
       (Resolved (Some \<lparr>serverUrl = JStr ''https://x'', sessionId = JStr ''tok''\<rparr>), [])
   \<and> fst (getConnectionDetail example_JSON_parse (tool_prints full_text)
            \<lparr>traceLevel = 1\<rparr> None) =
       Resolved (JObj [(''username'', JStr ''me@example.com''), (''id'', JStr ''00D''),
              (''connectedStatus'', JStr ''Connected''), (''accessToken'', JStr ''tok''),
              (''instanceUrl'', JStr ''https://x''), (''clientId'', JStr ''PlatformCLI''),
              (''alias'', JStr ''myorg'')])
   \<and> fst (getConnection example_JSON_parse (tool_prints full_text) example_Connection
            \<lparr>traceLevel = 1\<rparr> None) =
       Resolved (Some \<lparr>serverUrl = JStr ''https://x'', sessionId = JStr ''tok''\<rparr>)
   \<and> fst (getConnectionDetail example_JSON_parse (tool_prints numeric_text)
            \<lparr>traceLevel = 0\<rparr> None) =
       Resolved (JObj [(''instanceUrl'', JNum 5), (''accessToken'', JStr ''tok'')])
   \<and> example_Connection \<lparr>serverUrl = JNum 5, sessionId = JStr ''tok''\<rparr> =
       Inl (TypeError ''options.serverUrl.split is not a function'')
   \<and> getConnection example_JSON_parse (tool_prints numeric_text) example_Connection
        \<lparr>traceLevel = 0\<rparr> None =
       (Resolved None,
        [LogError ''Error occurred:%s'' [JStr ''options.serverUrl.split is not a function'']])"
  using getConnection_uses_two_fields
    [of example_JSON_parse "tool_prints success_text" "\<lparr>traceLevel = 0\<rparr>" "Some ''myorg''"
        "JObj [(''instanceUrl'', JStr ''https://x''), (''accessToken'', JStr ''tok'')]"
        "JStr ''https://x''" "JStr ''tok''"
        example_JSON_parse "tool_prints full_text" "\<lparr>traceLevel = 1\<rparr>" None
        "JObj [(''username'', JStr ''me@example.com''), (''id'', JStr ''00D''),
              (''connectedStatus'', JStr ''Connected''), (''accessToken'', JStr ''tok''),
              (''instanceUrl'', JStr ''https://x''), (''clientId'', JStr ''PlatformCLI''),
              (''alias'', JStr ''myorg'')]"
        example_Connection]
    getConnection_uses_two_fields
    [of example_JSON_parse "tool_prints numeric_text" "\<lparr>traceLevel = 0\<rparr>" None
        "JObj [(''instanceUrl'', JNum 5), (''accessToken'', JStr ''tok'')]"
        "JNum 5" "JStr ''tok''"
        example_JSON_parse "tool_prints numeric_text" "\<lparr>traceLevel = 0\<rparr>" None
        "JObj [(''instanceUrl'', JNum 5), (''accessToken'', JStr ''tok'')]"
        example_Connection]
  by (simp add: example_defs connector_defs)

subsection \<open>C4: output that does not parse\<close>

text \<open>
  Claim C4. When the tool's output is not accepted by \<^verbatim>\<open>JSON.parse\<close>,
  \<^verbatim>\<open>getConnectionDetail\<close> rejects with a \<^verbatim>\<open>DeveloperError\<close> whose message names the
  alias (\<^verbatim>\<open>default\<close> for a blank one) and whose detail and stack are the message and the
  stack of the parse error.
\<close>

theorem getConnectionDetail_malformed:
  assumes "getOrgDetail spawn alias = Resolved out"
    and "JSON_parse out = Inl err"
  shows "fst (getConnectionDetail JSON_parse spawn self alias) =
           Rejected (IsDeveloperError
             \<lparr>message = JStr (''Unable to get connection:''
                  @ (case alias of None \<Rightarrow> ''default''
                     | Some a \<Rightarrow> if a = [] then ''default'' else a)),
              detailMessage = JStr (err_message err),
              stack = JStr (err_stack err)\<rparr>)"
  using assms by (simp add: getConnectionDetail_def alias_or_default_def Let_def)

theorem getConnectionDetail_malformed_witness:
  "getOrgDetail (tool_prints ''sfdx: command not found'') (Some []) =
     Resolved ''sfdx: command not found''
   \<and> example_JSON_parse ''sfdx: command not found'' =
       Inl (JsError ''Unexpected token s in JSON at position 0''
              ''SyntaxError: Unexpected token s in JSON at position 0'')
   \<and> fst (getConnectionDetail example_JSON_parse (tool_prints ''sfdx: command not found'')
            \<lparr>traceLevel = 1\<rparr> (Some [])) =
       Rejected (IsDeveloperError
         \<lparr>message = JStr ''Unable to get connection:default'',
          detailMessage = JStr ''Unexpected token s in JSON at position 0'',
          stack = JStr ''SyntaxError: Unexpected token s in JSON at position 0''\<rparr>)"
  using getConnectionDetail_malformed
    [of "tool_prints ''sfdx: command not found''" "Some []" "''sfdx: command not found''"
        example_JSON_parse
        "JsError ''Unexpected token s in JSON at position 0''
           ''SyntaxError: Unexpected token s in JSON at position 0''"
        "\<lparr>traceLevel = 1\<rparr>"]
  by (simp add: example_defs connector_defs)

subsection \<open>C5: the tool cannot be started\<close>

text \<open>
  A failed launch shows as an \<^verbatim>\<open>error\<close> event of the process before the standard output
  closes. Events before the close only change the two variables of the listeners.
\<close>

lemma listeners_before_close:
  "\<not> list_ex is_close pre \<Longrightarrow>
   \<exists>results' streamError'. \<forall>evs.
      listeners alias results streamError (pre @ evs) = listeners alias results' streamError' evs"
proof (induction pre arbitrary: results streamError)
  case Nil
  then show ?case by auto
next
  case (Cons ev pre)
  then have rest: "\<not> list_ex is_close pre" by simp
  from Cons.prems show ?case
    using Cons.IH [OF rest] by (cases ev) simp_all
qed

lemma listeners_before_close_no_error:
  "\<not> list_ex is_close mid \<Longrightarrow> \<not> list_ex is_error mid \<Longrightarrow>
   \<exists>results'. \<forall>evs.
      listeners alias results streamError (mid @ evs) = listeners alias results' streamError evs"
proof (induction mid arbitrary: results)
  case Nil
  then show ?case by auto
next
  case (Cons ev mid)
  then have rest: "\<not> list_ex is_close mid" "\<not> list_ex is_error mid" by simp_all
  from Cons.prems show ?case
    using Cons.IH [OF rest] by (cases ev) simp_all
qed

lemma listeners_error_then_close:
  assumes "\<not> list_ex is_close pre" and "\<not> list_ex is_close mid" and "\<not> list_ex is_error mid"
  shows "listeners alias results streamError (pre @ ProcessError err # mid @ StdoutClose code # rest) =
           Rejected (IsDeveloperError
             \<lparr>message = JStr (''Error occurred while asking the salesforce cli for alias:''
                  @ alias_or_default alias @ '', is the salesforce cli installed?''),
              detailMessage = JStr (err_message err),
              stack = JStr (err_stack err)\<rparr>)"
proof -
  from listeners_before_close [OF assms(1)] obtain r1 s1 where
    "listeners alias results streamError (pre @ ProcessError err # mid @ StdoutClose code # rest) =
       listeners alias r1 s1 (ProcessError err # mid @ StdoutClose code # rest)"
    by blast
  moreover from listeners_before_close_no_error [OF assms(2,3)] obtain r2 where
    "listeners alias r1 (Some err) (mid @ StdoutClose code # rest) =
       listeners alias r2 (Some err) (StdoutClose code # rest)"
    by blast
  ultimately show ?thesis by simp
qed

text \<open>
  Claim C5. For every alias, when the process reports an error and the standard output
  then closes (no error event in between), \<^verbatim>\<open>getOrgDetail\<close> rejects with a
  \<^verbatim>\<open>DeveloperError\<close> whose message names the alias (\<^verbatim>\<open>default\<close> for a blank one) and
  whose detail and stack are those of the error of the operating system;
  \<^verbatim>\<open>getConnectionDetail\<close> passes the rejection on as it is.
\<close>

theorem getOrgDetail_tool_unavailable:
  assumes "spawn ''sfdx'' (args alias) = pre @ ProcessError err # mid @ StdoutClose code # rest"
    and "\<not> list_ex is_close pre" and "\<not> list_ex is_close mid" and "\<not> list_ex is_error mid"
  shows "getOrgDetail spawn alias =
           Rejected (IsDeveloperError
             \<lparr>message = JStr (''Error occurred while asking the salesforce cli for alias:''
                  @ (case alias of None \<Rightarrow> ''default''
                     | Some a \<Rightarrow> if a = [] then ''default'' else a)
                  @ '', is the salesforce cli installed?''),
              detailMessage = JStr (err_message err),
              stack = JStr (err_stack err)\<rparr>)
         \<and> getConnectionDetail JSON_parse spawn self alias = (Rejected (IsDeveloperError
             \<lparr>message = JStr (''Error occurred while asking the salesforce cli for alias:''
                  @ (case alias of None \<Rightarrow> ''default''
                     | Some a \<Rightarrow> if a = [] then ''default'' else a)
                  @ '', is the salesforce cli installed?''),
              detailMessage = JStr (err_message err),
              stack = JStr (err_stack err)\<rparr>), [])"
  using listeners_error_then_close [OF assms(2-4), of "alias" "[]" None err code rest] assms(1)
  by (simp add: getOrgDetail_def getConnectionDetail_def alias_or_default_def)

theorem getOrgDetail_tool_unavailable_witness:
  "tool_missing ''sfdx'' (args (Some ''myorg'')) =
     [] @ ProcessError (JsError ''spawn sfdx ENOENT'' ''Error: spawn sfdx ENOENT'') # []
        @ StdoutClose 0 # []
   \<and> \<not> list_ex is_close [] \<and> \<not> list_ex is_error []
   \<and> getOrgDetail tool_missing (Some ''myorg'') =
       Rejected (IsDeveloperError
         \<lparr>message = JStr ''Error occurred while asking the salesforce cli for alias:myorg, is the salesforce cli installed?'',
          detailMessage = JStr ''spawn sfdx ENOENT'',
          stack = JStr ''Error: spawn sfdx ENOENT''\<rparr>)
   \<and> getOrgDetail tool_missing None =
       Rejected (IsDeveloperError
         \<lparr>message = JStr ''Error occurred while asking the salesforce cli for alias:default, is the salesforce cli installed?'',
          detailMessage = JStr ''spawn sfdx ENOENT'',
          stack = JStr ''Error: spawn sfdx ENOENT''\<rparr>)"
  using getOrgDetail_tool_unavailable
    [of tool_missing "Some ''myorg''" "[]" "JsError ''spawn sfdx ENOENT'' ''Error: spawn sfdx ENOENT''"
        "[]" 0 "[]" example_JSON_parse "\<lparr>traceLevel = 0\<rparr>"]
    getOrgDetail_tool_unavailable
    [of tool_missing None "[]" "JsError ''spawn sfdx ENOENT'' ''Error: spawn sfdx ENOENT''"
        "[]" 0 "[]" example_JSON_parse "\<lparr>traceLevel = 0\<rparr>"]
  by (simp add: example_defs connector_defs)

subsection \<open>Paths: resolving twice is resolving once\<close>

text \<open>
  The helpers hand the path they resolved to the file system, which resolves it again;
  \<^verbatim>\<open>writeFile\<close> hands over the path as it was given. Both reach the same entry.
\<close>

lemma split_path_no_separator: "s \<in> set (split_path p) \<Longrightarrow> CHR ''/'' \<notin> set s"
  by (induction p arbitrary: s) (auto split: list.splits if_splits)

lemma split_path_not_Nil: "split_path p \<noteq> []"
  by (induction p) (auto split: list.splits)

lemma split_path_segment: "CHR ''/'' \<notin> set s \<Longrightarrow> split_path s = [s]"
  by (induction s) auto

lemma split_path_append:
  "CHR ''/'' \<notin> set s \<Longrightarrow> split_path (s @ CHR ''/'' # r) = s # split_path r"
  by (induction s) (auto simp: split_path_not_Nil split: list.splits)

lemma split_path_joined:
  "CHR ''/'' \<notin> set s \<Longrightarrow> list_all clean_segment ts \<Longrightarrow>
   split_path (s @ concat (map (\<lambda>t. CHR ''/'' # t) ts)) = s # ts"
proof (induction ts arbitrary: s)
  case Nil
  then show ?case by (simp add: split_path_segment)
next
  case (Cons t ts)
  then have t: "clean_segment t" and ts: "list_all clean_segment ts"
    by simp_all
  from t have "CHR ''/'' \<notin> set t" by (simp add: clean_segment_def)
  with Cons.IH [of t] ts Cons.prems(1) show ?case
    by (simp add: split_path_append)
qed

lemma normalizeString_clean_id:
  "list_all clean_segment ss \<Longrightarrow> normalizeString res ss = res @ ss"
  by (induction ss arbitrary: res) (auto simp: clean_segment_def)

lemma normalizeString_clean:
  "list_all clean_segment res \<Longrightarrow> \<forall>s \<in> set ss. CHR ''/'' \<notin> set s \<Longrightarrow>
   list_all clean_segment (normalizeString res ss)"
proof (induction ss arbitrary: res)
  case Nil
  then show ?case by simp
next
  case (Cons s ss)
  have "list_all clean_segment (butlast res)"
    using Cons.prems(1) by (auto simp: list_all_iff dest: in_set_butlastD)
  moreover have "s \<noteq> [] \<Longrightarrow> s \<noteq> ''.'' \<Longrightarrow> s \<noteq> ''..'' \<Longrightarrow> clean_segment s"
    using Cons.prems(2) by (simp add: clean_segment_def)
  then have "s \<noteq> [] \<Longrightarrow> s \<noteq> ''.'' \<Longrightarrow> s \<noteq> ''..'' \<Longrightarrow> list_all clean_segment (res @ [s])"
    using Cons.prems(1) by simp
  ultimately show ?case using Cons by auto
qed

lemma locate_clean: "list_all clean_segment (locate dir p)"
  unfolding locate_def
  by (rule normalizeString_clean) (auto dest: split_path_no_separator)

lemma locate_render:
  assumes "list_all clean_segment segs"
  shows "locate dir (render segs) = segs"
proof (cases segs)
  case Nil
  then show ?thesis by (simp add: locate_def render_def isAbsolute_def)
next
  case (Cons s ss)
  have abs: "isAbsolute (render segs)"
    using Cons by (simp add: render_def isAbsolute_def)
  have "split_path (render segs) = [] # segs"
    using split_path_joined [of "[]" segs] assms Cons by (simp add: render_def)
  with abs show ?thesis
    using normalizeString_clean_id [OF assms, of "[]"] by (simp add: locate_def)
qed

lemma locate_path_resolve: "locate dir' (path_resolve dir p) = locate dir p"
  unfolding path_resolve_def by (rule locate_render) (rule locate_clean)

lemma stat_path_resolve: "stat fs (path_resolve (cwd fs) p) = stat fs p"
  by (simp add: stat_def locate_path_resolve)

subsection \<open>What a successful write leaves, and how the text of a value starts\<close>

lemma writeFileSync_stored:
  assumes "writeFileSync fs p (Some text) = Inr fs'"
  shows "cwd fs' = cwd fs \<and> stat fs' p = Some (File None text)"
proof -
  let ?key = "locate (cwd fs) p"
  have "lookup fs ?key \<noteq> Some (Directory None)"
    using assms by (auto simp: writeFileSync_def Let_def)
  then have key: "?key \<noteq> []" by (auto simp: lookup_def)
  have fs': "fs' = fs\<lparr>nodes := AList.update ?key (File None text) (nodes fs)\<rparr>"
    using assms
    by (auto simp: writeFileSync_def Let_def split: option.splits node.splits)
  show ?thesis
    using key by (simp add: fs' stat_def lookup_def update_conv')
qed

lemma digit_char_not_BOM: "k < 10 \<Longrightarrow> char_of (48 + k :: nat) \<noteq> CHR 0xEF"
proof
  assume "k < 10" and "char_of (48 + k) = CHR 0xEF"
  then have "of_char (char_of (48 + k) :: char) = (of_char (CHR 0xEF) :: nat)" by simp
  with \<open>k < 10\<close> show False by (simp add: of_char_of)
qed

lemma digit_string_hd: "digit_string n \<noteq> [] \<and> hd (digit_string n) \<noteq> CHR 0xEF"
proof (induction n rule: digit_string.induct)
  case (1 n)
  show ?case
  proof (cases "n < 10")
    case True
    then show ?thesis
      using digit_char_not_BOM [of n] by (subst (1 2) digit_string.simps) simp
  next
    case False
    with 1 show ?thesis
      by (subst (1 2) digit_string.simps) simp
  qed
qed

lemma Number_toString_hd: "Number_toString n \<noteq> [] \<and> hd (Number_toString n) \<noteq> CHR 0xEF"
  using digit_string_hd by (simp add: Number_toString_def)

lemma wrap_hd: "opening \<noteq> [] \<Longrightarrow> wrap opening closing stepback partial \<noteq> []
   \<and> hd (wrap opening closing stepback partial) = hd opening"
  by (simp add: wrap_def)

lemma SerializeJSONProperty_hd:
  "SerializeJSONProperty indent v = Some text \<Longrightarrow> text \<noteq> [] \<and> hd text \<noteq> CHR 0xEF"
  using Number_toString_hd wrap_hd [of "''[''"] wrap_hd [of "''{''"]
  by (cases v) (auto simp: QuoteJSONString_def split: if_splits)

lemma stripBom_stringify: "JSON_stringify v = Some text \<Longrightarrow> stripBom text = text"
  using SerializeJSONProperty_hd [of "[]" v "text"]
  by (cases "text") (auto simp: JSON_stringify_def stripBom_def)

lemma SerializeJSONProperty_defined:
  "v \<noteq> JUndefined \<Longrightarrow> \<exists>text. SerializeJSONProperty indent v = Some text"
  by (cases v) simp_all

lemma QuoteJSONString_longer: "length (QuoteJSONString s) \<ge> length s + 2"
proof -
  have "length (concat (map QuoteJSONChar s)) \<ge> length s"
  proof (induction s)
    case Nil
    then show ?case by simp
  next
    case (Cons c s)
    have "length (QuoteJSONChar c) \<ge> 1" by (simp add: QuoteJSONChar_def)
    with Cons show ?case by simp
  qed
  then show ?thesis by (simp add: QuoteJSONString_def)
qed

lemma QuoteJSONString_differs: "QuoteJSONString s \<noteq> s"
  using QuoteJSONString_longer [of s] by auto

lemma digit_string_1: "digit_string (Suc 0) = ''1''"
  by code_simp

lemmas file_defs =
  writeFile_def readJSON_def readFile_def listFiles_def writeFileSync_def readFileSync_def
  readJsonSync_def readdirSync_def ensureDirSync_def existsSync_def stat_def lookup_def
  locate_def path_resolve_def render_def isAbsolute_def errno_def stripBom_def
  JSON_stringify_def wrap_def gap_def QuoteJSONString_def QuoteJSONChar_def
  Number_toString_def digit_string_1 example_fs_def Let_def

subsection \<open>C6: the file helpers and their errors\<close>

lemma listFiles_directory:
  assumes "stat fs p = Some (Directory fault)"
  shows "listFiles this fs p =
           (case readdirSync fs (path_resolve (cwd fs) p) of
              Inr results \<Rightarrow> (Returned (JArr (map JStr results)), [], fs)
            | Inl err \<Rightarrow>
                (Returned JUndefined,
                 log \<lparr>message = JStr (''unable to read directory: '' @ path_resolve (cwd fs) p),
                      detailMessage = JStr (err_message err),
                      stack = JStr (err_stack err)\<rparr> (traceLevel this),
                 fs))"
  using assms
  by (simp add: listFiles_def existsSync_def ensureDirSync_def stat_path_resolve Let_def)

lemma listFiles_regular_file_raises:
  assumes "stat fs p = Some (File fault text)"
  shows "listFiles this fs p = (Raised (IsError (errno ''EEXIST'' (path_resolve (cwd fs) p))), [], fs)"
  using assms
  by (simp add: listFiles_def existsSync_def ensureDirSync_def stat_path_resolve Let_def)

lemma listFiles_regular_file_example:
  "listFiles \<lparr>traceLevel = 0\<rparr> example_fs ''README.md'' =
     (Raised (IsError (errno ''EEXIST'' ''/home/user/README.md'')), [], example_fs)"
  by (simp add: file_defs)

text \<open>
  Claim C6 as stated gives all four helpers an existence check that logs an error and
  returns. \<^verbatim>\<open>writeFile\<close> has none: on a target that does not exist it writes the file
  and logs nothing. (On a regular file \<^verbatim>\<open>listFiles\<close> raises, as
  \<open>listFiles_regular_file_raises\<close> shows: \<^verbatim>\<open>ensureDirSync\<close> throws outside the
  \<^verbatim>\<open>try\<close>.)
\<close>

theorem writeFile_no_existence_check_counterexample:
  "\<not> existsSync example_fs (path_resolve (cwd example_fs) ''allFields.json'')
   \<and> writeFile \<lparr>traceLevel = 1\<rparr> example_fs ''allFields.json'' a1_value =
       (Returned JUndefined, [],
        example_fs\<lparr>nodes := nodes example_fs
          @ [([''home'', ''user'', ''allFields.json''], File None a1_text)]\<rparr>)"
  by (simp add: file_defs example_defs)

text \<open>
  Claim C6, amended. \<^verbatim>\<open>readJSON\<close> and \<^verbatim>\<open>readFile\<close> never raise, and \<^verbatim>\<open>writeFile\<close>
  always returns \<^verbatim>\<open>undefined\<close>. If the target does not exist, \<^verbatim>\<open>readJSON\<close>,
  \<^verbatim>\<open>readFile\<close> and \<^verbatim>\<open>listFiles\<close> log one error and return \<^verbatim>\<open>undefined\<close>. An error
  of the read after the existence check (for \<^verbatim>\<open>readJSON\<close> also one of parsing), and any
  error of the write, is logged as a \<^verbatim>\<open>DeveloperError\<close> at the trace level of the
  connector and swallowed: the helper returns \<^verbatim>\<open>undefined\<close> and the file system is as
  before. On a directory \<^verbatim>\<open>listFiles\<close> does not raise, and an error of the listing is
  logged and swallowed in the same way.
\<close>

theorem file_helpers_swallow_errors:
  "fst (readJSON JSON_parse this fs p) \<noteq> Raised e
   \<and> fst (readFile this fs p) \<noteq> Raised e
   \<and> fst (writeFile this fs p contents) = Returned JUndefined
   \<and> (\<not> existsSync fs (path_resolve (cwd fs) p) \<longrightarrow>
        readJSON JSON_parse this fs p =
          (Returned JUndefined,
           [LogError ''File does not exist: %s'' [JStr (path_resolve (cwd fs) p)]])
        \<and> readFile this fs p =
          (Returned JUndefined,
           [LogError ''File does not exist: %s'' [JStr (path_resolve (cwd fs) p)]])
        \<and> listFiles this fs p =
          (Returned JUndefined,
           [LogError ''Path does not exist: %s'' [JStr (path_resolve (cwd fs) p)]], fs))
   \<and> (existsSync fs (path_resolve (cwd fs) p)
        \<and> readJsonSync JSON_parse fs (path_resolve (cwd fs) p) = Inl err \<longrightarrow>
        readJSON JSON_parse this fs p =
          (Returned JUndefined,
           log \<lparr>message = JStr (''unable to read file: '' @ path_resolve (cwd fs) p),
                detailMessage = JStr (err_message err),
                stack = JStr (err_stack err)\<rparr> (traceLevel this)))
   \<and> (existsSync fs (path_resolve (cwd fs) p)
        \<and> readFileSync fs (path_resolve (cwd fs) p) = Inl err \<longrightarrow>
        readFile this fs p =
          (Returned JUndefined,
           log \<lparr>message = JStr (''unable to read file: '' @ path_resolve (cwd fs) p),
                detailMessage = JStr (err_message err),
                stack = JStr (err_stack err)\<rparr> (traceLevel this)))
   \<and> (writeFileSync fs p (JSON_stringify contents) = Inl err \<longrightarrow>
        writeFile this fs p contents =
          (Returned JUndefined,
           log \<lparr>message = JStr (''unable to write to file: '' @ p),
                detailMessage = JStr (err_message err),
                stack = JStr (err_stack err)\<rparr> (traceLevel this),
           fs))
   \<and> (stat fs p = Some (Directory fault) \<longrightarrow>
        fst (listFiles this fs p) \<noteq> Raised e
        \<and> (readdirSync fs (path_resolve (cwd fs) p) = Inl err \<longrightarrow>
             listFiles this fs p =
               (Returned JUndefined,
                log \<lparr>message = JStr (''unable to read directory: '' @ path_resolve (cwd fs) p),
                     detailMessage = JStr (err_message err),
                     stack = JStr (err_stack err)\<rparr> (traceLevel this),
                fs)))"
proof -
  have never: "fst (readJSON JSON_parse this fs p) \<noteq> Raised e"
    "fst (readFile this fs p) \<noteq> Raised e"
    "fst (writeFile this fs p contents) = Returned JUndefined"
    by (simp_all add: readJSON_def readFile_def writeFile_def Let_def split: sum.splits)
  have absent: "readJSON JSON_parse this fs p =
          (Returned JUndefined,
           [LogError ''File does not exist: %s'' [JStr (path_resolve (cwd fs) p)]])"
      "readFile this fs p =
          (Returned JUndefined,
           [LogError ''File does not exist: %s'' [JStr (path_resolve (cwd fs) p)]])"
      "listFiles this fs p =
          (Returned JUndefined,
           [LogError ''Path does not exist: %s'' [JStr (path_resolve (cwd fs) p)]], fs)"
    if "\<not> existsSync fs (path_resolve (cwd fs) p)"
    using that by (simp_all add: readJSON_def readFile_def listFiles_def)
  have failing: "readJSON JSON_parse this fs p =
          (Returned JUndefined,
           log \<lparr>message = JStr (''unable to read file: '' @ path_resolve (cwd fs) p),
                detailMessage = JStr (err_message err),
                stack = JStr (err_stack err)\<rparr> (traceLevel this))"
    if "existsSync fs (path_resolve (cwd fs) p)"
      and "readJsonSync JSON_parse fs (path_resolve (cwd fs) p) = Inl err"
    using that by (simp add: readJSON_def)
  have failing': "readFile this fs p =
          (Returned JUndefined,
           log \<lparr>message = JStr (''unable to read file: '' @ path_resolve (cwd fs) p),
                detailMessage = JStr (err_message err),
                stack = JStr (err_stack err)\<rparr> (traceLevel this))"
    if "existsSync fs (path_resolve (cwd fs) p)"
      and "readFileSync fs (path_resolve (cwd fs) p) = Inl err"
    using that by (simp add: readFile_def)
  have writing: "writeFile this fs p contents =
          (Returned JUndefined,
           log \<lparr>message = JStr (''unable to write to file: '' @ p),
                detailMessage = JStr (err_message err),
                stack = JStr (err_stack err)\<rparr> (traceLevel this),
           fs)"
    if "writeFileSync fs p (JSON_stringify contents) = Inl err"
    using that by (simp add: writeFile_def)
  have listing: "fst (listFiles this fs p) \<noteq> Raised e"
      "readdirSync fs (path_resolve (cwd fs) p) = Inl err \<longrightarrow>
             listFiles this fs p =
               (Returned JUndefined,
                log \<lparr>message = JStr (''unable to read directory: '' @ path_resolve (cwd fs) p),
                     detailMessage = JStr (err_message err),
                     stack = JStr (err_stack err)\<rparr> (traceLevel this),
                fs)"
    if "stat fs p = Some (Directory fault)"
    using listFiles_directory [OF that, of "this"] by (simp_all split: sum.splits)
  from never absent failing failing' writing listing show ?thesis by blast
qed

theorem file_helpers_swallow_errors_witness:
  "\<not> existsSync example_fs (path_resolve (cwd example_fs) ''nothing.json'')
   \<and> readJSON example_JSON_parse \<lparr>traceLevel = 0\<rparr> example_fs ''nothing.json'' =
       (Returned JUndefined,
        [LogError ''File does not exist: %s'' [JStr ''/home/user/nothing.json'']])
   \<and> listFiles \<lparr>traceLevel = 0\<rparr> example_fs ''nothing.json'' =
       (Returned JUndefined,
        [LogError ''Path does not exist: %s'' [JStr ''/home/user/nothing.json'']], example_fs)
   \<and> existsSync example_fs (path_resolve (cwd example_fs) ''locked.json'')
   \<and> readFileSync example_fs (path_resolve (cwd example_fs) ''locked.json'') =
       Inl (errno ''EACCES'' ''/home/user/locked.json'')
   \<and> readJsonSync example_JSON_parse example_fs (path_resolve (cwd example_fs) ''locked.json'') =
       Inl (JsError ''/home/user/locked.json: EACCES: /home/user/locked.json''
              ''Error: EACCES: /home/user/locked.json'')
   \<and> readFile \<lparr>traceLevel = 0\<rparr> example_fs ''locked.json'' =
       (Returned JUndefined,
        [LogError ''Error occurred:%s'' [JStr ''unable to read file: /home/user/locked.json'']])
   \<and> readJSON example_JSON_parse \<lparr>traceLevel = 0\<rparr> example_fs ''locked.json'' =
       (Returned JUndefined,
        [LogError ''Error occurred:%s'' [JStr ''unable to read file: /home/user/locked.json'']])
   \<and> writeFileSync example_fs ''./tmp/allFields.json'' (JSON_stringify a1_value) =
       Inl (errno ''ENOENT'' ''./tmp/allFields.json'')
   \<and> writeFile \<lparr>traceLevel = 0\<rparr> example_fs ''./tmp/allFields.json'' a1_value =
       (Returned JUndefined,
        [LogError ''Error occurred:%s'' [JStr ''unable to write to file: ./tmp/allFields.json'']],
        example_fs)
   \<and> stat example_fs ''private'' = Some (Directory (Some (errno ''EACCES'' ''/home/user/private'')))
   \<and> readdirSync example_fs (path_resolve (cwd example_fs) ''private'') =
       Inl (errno ''EACCES'' ''/home/user/private'')
   \<and> listFiles \<lparr>traceLevel = 0\<rparr> example_fs ''private'' =
       (Returned JUndefined,
        [LogError ''Error occurred:%s'' [JStr ''unable to read directory: /home/user/private'']],
        example_fs)"
  using file_helpers_swallow_errors
    [of example_JSON_parse "\<lparr>traceLevel = 0\<rparr>" example_fs "''nothing.json''"
        "IsError (errno ''EACCES'' [])" a1_value "errno ''EACCES'' []" None]
    file_helpers_swallow_errors
    [of example_JSON_parse "\<lparr>traceLevel = 0\<rparr>" example_fs "''locked.json''"
        "IsError (errno ''EACCES'' [])" a1_value "errno ''EACCES'' ''/home/user/locked.json''" None]
    file_helpers_swallow_errors
    [of example_JSON_parse "\<lparr>traceLevel = 0\<rparr>" example_fs "''locked.json''"
        "IsError (errno ''EACCES'' [])" a1_value
        "JsError ''/home/user/locked.json: EACCES: /home/user/locked.json''
           ''Error: EACCES: /home/user/locked.json''" None]
    file_helpers_swallow_errors
    [of example_JSON_parse "\<lparr>traceLevel = 0\<rparr>" example_fs "''./tmp/allFields.json''"
        "IsError (errno ''EACCES'' [])" a1_value "errno ''ENOENT'' ''./tmp/allFields.json''" None]
    file_helpers_swallow_errors
    [of example_JSON_parse "\<lparr>traceLevel = 0\<rparr>" example_fs "''private''"
        "IsError (errno ''EACCES'' [])" a1_value "errno ''EACCES'' ''/home/user/private''"
        "Some (errno ''EACCES'' ''/home/user/private'')"]
  by (simp add: file_defs example_defs connector_defs)

subsection \<open>C7: writing a value and reading it back\<close>

text \<open>
  Claim C7 as stated holds for every path. It fails where the write fails:
  \<^verbatim>\<open>writeFile\<close> logs the error and returns, and \<^verbatim>\<open>readJSON\<close> then finds no file. Here
  the directory \<^verbatim>\<open>tmp\<close> of the path does not exist.
\<close>

theorem write_then_read_counterexample:
  "JSON_stringify a1_value = Some a1_text
   \<and> example_JSON_parse a1_text = Inr a1_value
   \<and> writeFile \<lparr>traceLevel = 0\<rparr> example_fs ''./tmp/allFields.json'' a1_value =
       (Returned JUndefined,
        [LogError ''Error occurred:%s'' [JStr ''unable to write to file: ./tmp/allFields.json'']],
        example_fs)
   \<and> readJSON example_JSON_parse \<lparr>traceLevel = 0\<rparr>
        (snd (snd (writeFile \<lparr>traceLevel = 0\<rparr> example_fs ''./tmp/allFields.json'' a1_value)))
        ''./tmp/allFields.json'' =
       (Returned JUndefined,
        [LogError ''File does not exist: %s'' [JStr ''/home/user/tmp/allFields.json'']])"
  by code_simp

text \<open>
  Claim C7, amended: for every value whose text \<^verbatim>\<open>JSON.parse\<close> reads back as that value,
  and every path at which the write succeeds, \<^verbatim>\<open>writeFile\<close> followed by \<^verbatim>\<open>readJSON\<close>
  of the same path yields the value, and neither logs anything.
\<close>

theorem write_then_read_roundtrip:
  assumes "JSON_stringify v = Some text"
    and "JSON_parse text = Inr v"
    and "writeFileSync fs filePath (Some text) = Inr fs'"
  shows "writeFile this fs filePath v = (Returned JUndefined, [], fs')
         \<and> readJSON JSON_parse this' fs' filePath = (Returned v, [])"
proof
  show "writeFile this fs filePath v = (Returned JUndefined, [], fs')"
    using assms(1,3) by (simp add: writeFile_def)
next
  from writeFileSync_stored [OF assms(3)]
  have stored: "stat fs' filePath = Some (File None text)" by simp
  then have "existsSync fs' (path_resolve (cwd fs') filePath)"
    by (simp add: existsSync_def stat_path_resolve)
  moreover have "readFileSync fs' (path_resolve (cwd fs') filePath) = Inr text"
    using stored by (simp add: readFileSync_def stat_path_resolve)
  ultimately show "readJSON JSON_parse this' fs' filePath = (Returned v, [])"
    using assms(2) stripBom_stringify [OF assms(1)]
    by (simp add: readJSON_def readJsonSync_def)
qed

theorem write_then_read_roundtrip_witness:
  "JSON_stringify a1_value = Some a1_text
   \<and> example_JSON_parse a1_text = Inr a1_value
   \<and> writeFileSync example_fs ''./allFields.json'' (Some a1_text) =
       Inr (example_fs\<lparr>nodes := nodes example_fs
              @ [([''home'', ''user'', ''allFields.json''], File None a1_text)]\<rparr>)
   \<and> readJSON example_JSON_parse \<lparr>traceLevel = 0\<rparr>
        (snd (snd (writeFile \<lparr>traceLevel = 0\<rparr> example_fs ''./allFields.json'' a1_value)))
        ''./allFields.json'' = (Returned a1_value, [])"
proof -
  have a: "JSON_stringify a1_value = Some a1_text"
    by (simp add: example_defs file_defs)
  have b: "example_JSON_parse a1_text = Inr a1_value"
    by (simp add: example_defs)
  have c: "writeFileSync example_fs ''./allFields.json'' (Some a1_text) =
       Inr (example_fs\<lparr>nodes := nodes example_fs
              @ [([''home'', ''user'', ''allFields.json''], File None a1_text)]\<rparr>)"
    by (simp add: file_defs)
  from write_then_read_roundtrip
    [of a1_value a1_text example_JSON_parse example_fs "''./allFields.json''"
        "example_fs\<lparr>nodes := nodes example_fs
              @ [([''home'', ''user'', ''allFields.json''], File None a1_text)]\<rparr>"
        "\<lparr>traceLevel = 0\<rparr>" "\<lparr>traceLevel = 0\<rparr>"] a b c
  show ?thesis by simp
qed

subsection \<open>C8: writeFile writes the JSON text of its input\<close>

text \<open>
  Claim C8 as stated holds for every input. For \<^verbatim>\<open>undefined\<close> there is no JSON text:
  \<^verbatim>\<open>JSON.stringify\<close> returns \<^verbatim>\<open>undefined\<close>, the write refuses it, and no file is
  written.
\<close>

theorem writeFile_undefined_counterexample:
  "JSON_stringify JUndefined = None
   \<and> writeFile \<lparr>traceLevel = 0\<rparr> example_fs ''allFields.json'' JUndefined =
       (Returned JUndefined,
        [LogError ''Error occurred:%s'' [JStr ''unable to write to file: allFields.json'']],
        example_fs)
   \<and> \<not> existsSync example_fs ''allFields.json''"
  by (simp add: file_defs connector_defs)

text \<open>
  Claim C8, amended: for every input other than \<^verbatim>\<open>undefined\<close>, \<^verbatim>\<open>writeFile\<close> hands the
  text of \<^verbatim>\<open>JSON.stringify(contents, null, 2)\<close> to the write, whatever the shape of the
  input; where the write succeeds the file holds exactly that text. A string is written in
  quotes, never as it is, and the first element of an array stands on a line of its own
  behind two spaces.
\<close>

theorem writeFile_serializes:
  assumes "contents \<noteq> JUndefined"
  shows "\<exists>text. JSON_stringify contents = Some text
           \<and> snd (snd (writeFile this fs filePath contents)) =
               (case writeFileSync fs filePath (Some text) of
                  Inr fs' \<Rightarrow> fs' | Inl err \<Rightarrow> fs)
           \<and> (\<forall>fs'. writeFileSync fs filePath (Some text) = Inr fs' \<longrightarrow>
                 readFileSync fs' filePath = Inr text)
           \<and> (\<forall>s. contents = JStr s \<longrightarrow> text = QuoteJSONString s \<and> text \<noteq> s)
           \<and> (\<forall>x xs. contents = JArr (x # xs) \<longrightarrow> take 4 text = ''['' @ [CHR 0x0A] @ ''  '')"
proof -
  from assms obtain t where t: "JSON_stringify contents = Some t"
    using SerializeJSONProperty_defined [of contents "[]"] by (auto simp: JSON_stringify_def)
  have "snd (snd (writeFile this fs filePath contents)) =
               (case writeFileSync fs filePath (Some t) of
                  Inr fs' \<Rightarrow> fs' | Inl err \<Rightarrow> fs)"
    using t by (simp add: writeFile_def split: sum.splits)
  moreover have "readFileSync fs' filePath = Inr t"
    if "writeFileSync fs filePath (Some t) = Inr fs'" for fs'
    using writeFileSync_stored [OF that] by (simp add: readFileSync_def)
  moreover have "t = QuoteJSONString s \<and> t \<noteq> s" if "contents = JStr s" for s
    using t that QuoteJSONString_differs [of s] by (simp add: JSON_stringify_def)
  moreover have "take 4 t = ''['' @ [CHR 0x0A] @ ''  ''" if "contents = JArr (x # xs)" for x xs
    using t that by (auto simp: JSON_stringify_def wrap_def gap_def)
  ultimately show ?thesis using t by blast
qed

theorem writeFile_serializes_witness:
  "JStr ''abc'' \<noteq> JUndefined
   \<and> JSON_stringify (JStr ''abc'') = Some (quoted ''abc'')
   \<and> quoted ''abc'' \<noteq> ''abc''
   \<and> readFileSync (snd (snd (writeFile \<lparr>traceLevel = 0\<rparr> example_fs ''note.json'' (JStr ''abc''))))
        ''note.json'' = Inr (quoted ''abc'')
   \<and> JSON_stringify (JArr [JNum 1, JObj [(''a'', JNull)]]) =
       Some (''['' @ [CHR 0x0A] @ ''  1,'' @ [CHR 0x0A] @ ''  {'' @ [CHR 0x0A]
             @ ''    '' @ quoted ''a'' @ '': null'' @ [CHR 0x0A] @ ''  }'' @ [CHR 0x0A] @ '']'')"
  using writeFile_serializes [of "JStr ''abc''" "\<lparr>traceLevel = 0\<rparr>" example_fs "''note.json''"]
  by (simp add: file_defs example_defs)

subsection \<open>C9: the trace level changes the log only\<close>

lemma fst_file_helpers_traceLevel:
  "fst (readJSON JSON_parse c1 fs p) = fst (readJSON JSON_parse c2 fs p)"
  "fst (readFile c1 fs p) = fst (readFile c2 fs p)"
  "fst (writeFile c1 fs p v) = fst (writeFile c2 fs p v)"
  "snd (snd (writeFile c1 fs p v)) = snd (snd (writeFile c2 fs p v))"
  "fst (listFiles c1 fs p) = fst (listFiles c2 fs p)"
  "snd (snd (listFiles c1 fs p)) = snd (snd (listFiles c2 fs p))"
  by (simp_all add: readJSON_def readFile_def writeFile_def listFiles_def Let_def
        split: sum.splits prod.splits)

lemma fst_getConnectionDetail_traceLevel:
  "fst (getConnectionDetail JSON_parse spawn c1 a) = fst (getConnectionDetail JSON_parse spawn c2 a)"
  by (simp add: getConnectionDetail_def Let_def split: promise.splits sum.splits)

lemma fst_getConnection_traceLevel:
  "fst (getConnection JSON_parse spawn JsForce_Connection c1 a) = fst (getConnection JSON_parse spawn JsForce_Connection c2 a)"
  using fst_getConnectionDetail_traceLevel [of JSON_parse spawn c1 a c2]
  by (cases "getConnectionDetail JSON_parse spawn c1 a"; cases "getConnectionDetail JSON_parse spawn c2 a")
     (auto simp: getConnection_def split: promise.splits sum.splits)

text \<open>
  Claim C9. For any two connectors (any two trace levels) and the same alias, tool,
  parser, file system and arguments, every public operation settles or returns with the
  same value and leaves the same file system; only the lines logged can differ.
\<close>

theorem traceLevel_affects_logging_only:
  "fst (getConnection JSON_parse spawn JsForce_Connection c1 alias) = fst (getConnection JSON_parse spawn JsForce_Connection c2 alias)
   \<and> fst (getConnectionDetail JSON_parse spawn c1 alias) =
       fst (getConnectionDetail JSON_parse spawn c2 alias)
   \<and> fst (readJSON JSON_parse c1 fs p) = fst (readJSON JSON_parse c2 fs p)
   \<and> fst (readFile c1 fs p) = fst (readFile c2 fs p)
   \<and> fst (writeFile c1 fs p v) = fst (writeFile c2 fs p v)
   \<and> snd (snd (writeFile c1 fs p v)) = snd (snd (writeFile c2 fs p v))
   \<and> fst (listFiles c1 fs p) = fst (listFiles c2 fs p)
   \<and> snd (snd (listFiles c1 fs p)) = snd (snd (listFiles c2 fs p))"
  by (intro conjI fst_getConnection_traceLevel fst_getConnectionDetail_traceLevel
        fst_file_helpers_traceLevel)

subsection \<open>C10: importError\<close>

text \<open>
  Claim C10. \<^verbatim>\<open>importError\<close> returns a \<^verbatim>\<open>DeveloperError\<close> as it is and wraps any other
  error as its message, the detail \<^verbatim>\<open>unhandled exception\<close> and its stack; applied to its
  own result it changes nothing. So when the resolution rejects with a \<^verbatim>\<open>DeveloperError\<close>,
  \<^verbatim>\<open>getConnection\<close> logs that very error, and at the basic trace level the line carries
  its message.
\<close>

theorem importError_idempotent:
  "importError (IsDeveloperError d) = d
   \<and> importError (IsError e) =
       \<lparr>message = JStr (err_message e),
        detailMessage = JStr ''unhandled exception'',
        stack = JStr (err_stack e)\<rparr>
   \<and> importError (IsDeveloperError (importError x)) = importError x
   \<and> (fst (getConnectionDetail JSON_parse spawn this alias) = Rejected (IsDeveloperError d) \<longrightarrow>
        snd (getConnection JSON_parse spawn JsForce_Connection this alias) =
          snd (getConnectionDetail JSON_parse spawn this alias) @ log d (traceLevel this)
        \<and> (traceLevel this = 0 \<longrightarrow>
             log d (traceLevel this) = [LogError ''Error occurred:%s'' [message d]]))"
proof (intro conjI impI)
  assume "fst (getConnectionDetail JSON_parse spawn this alias) = Rejected (IsDeveloperError d)"
  from getConnection_after_rejection [OF this, of JsForce_Connection]
  show "snd (getConnection JSON_parse spawn JsForce_Connection this alias) =
          snd (getConnectionDetail JSON_parse spawn this alias) @ log d (traceLevel this)"
    by simp
next
  assume "traceLevel this = 0"
  then show "log d (traceLevel this) = [LogError ''Error occurred:%s'' [message d]]"
    by (simp add: log_def ERROR_LEVEL_NONE_def ERROR_LEVEL_BASIC_def)
qed simp_all

theorem importError_idempotent_witness:
  "fst (getConnectionDetail example_JSON_parse (tool_prints failure_text)
          \<lparr>traceLevel = 0\<rparr> (Some ''myorg'')) =
     Rejected (IsDeveloperError
       \<lparr>message = JStr ''Unable to find connection:myorg'',
        detailMessage = JStr ''no such org'',
        stack = JStr ''...''\<rparr>)
   \<and> traceLevel \<lparr>traceLevel = 0\<rparr> = 0
   \<and> snd (getConnection example_JSON_parse (tool_prints failure_text) example_Connection
            \<lparr>traceLevel = 0\<rparr> (Some ''myorg'')) =
       [LogError ''Error occurred:%s'' [JStr ''Unable to find connection:myorg'']]
   \<and> importError (IsError (JsError ''boom'' ''Error: boom'')) =
       \<lparr>message = JStr ''boom'', detailMessage = JStr ''unhandled exception'',
        stack = JStr ''Error: boom''\<rparr>
   \<and> importError (IsDeveloperError (importError (IsError (JsError ''boom'' ''Error: boom'')))) =
       importError (IsError (JsError ''boom'' ''Error: boom''))"
  using importError_idempotent
    [of "\<lparr>message = JStr ''Unable to find connection:myorg'',
        detailMessage = JStr ''no such org'', stack = JStr ''...''\<rparr>"
        "JsError ''boom'' ''Error: boom''" "IsError (JsError ''boom'' ''Error: boom'')"
        example_JSON_parse "tool_prints failure_text" "\<lparr>traceLevel = 0\<rparr>" "Some ''myorg''"
        example_Connection]
  by (simp add: example_defs connector_defs)

end
